theory Spec2Isabelle
  imports Main "HOL-Library.Word" "HOL-Library.AList" "HOL-Library.Sublist"
begin

unbundle bit_operations_syntax

section \<open>Python values\<close>

text \<open>
  The values that \<^verbatim>\<open>ast.literal_eval\<close> can produce, tagged by their Python type.
  \<^item> An \<^verbatim>\<open>int\<close> is unbounded; \<^verbatim>\<open>bool\<close> is a subclass of \<^verbatim>\<open>int\<close> and keeps its own tag.
  \<^item> A \<^verbatim>\<open>float\<close> is carried by its IEEE-754 binary64 bit pattern. The program never
    computes with floats; only the sign flip of a negative literal touches them.
  \<^item> A \<^verbatim>\<open>str\<close> is a list of code points below 256, one \<open>char\<close> each.
  \<^item> A \<^verbatim>\<open>set\<close> and a \<^verbatim>\<open>dict\<close> are carried by the elements (key/value pairs) they
    were built from, in source order: \<open>PSet xs\<close> stands for \<^verbatim>\<open>set(xs)\<close> and
    \<open>PDict kvs\<close> for \<^verbatim>\<open>dict(kvs)\<close>. The program only ever asks for their type and
    their \<^verbatim>\<open>repr\<close>.
\<close>

type_synonym pyfloat = "64 word"

datatype pyval =
    PInt int
  | PBool bool
  | PFloat pyfloat
  | PComplex pyfloat pyfloat
  | PStr string
  | PBytes string
  | PNone
  | PEllipsis
  | PList "pyval list"
  | PTuple "pyval list"
  | PSet "pyval list"
  | PDict "(pyval \<times> pyval) list"

text \<open>\<^verbatim>\<open>isinstance(x, int)\<close> holds of a \<^verbatim>\<open>bool\<close> as well.\<close>

fun isinstance_int :: "pyval \<Rightarrow> bool" where
  "isinstance_int (PInt n) = True"
| "isinstance_int (PBool b) = True"
| "isinstance_int v = False"

fun isinstance_float :: "pyval \<Rightarrow> bool" where
  "isinstance_float (PFloat f) = True"
| "isinstance_float v = False"

fun isinstance_complex :: "pyval \<Rightarrow> bool" where
  "isinstance_complex (PComplex re im) = True"
| "isinstance_complex v = False"

text \<open>\<^verbatim>\<open>type(v).__name__\<close>\<close>

fun type_name :: "pyval \<Rightarrow> string" where
  "type_name (PInt n) = ''int''"
| "type_name (PBool b) = ''bool''"
| "type_name (PFloat f) = ''float''"
| "type_name (PComplex re im) = ''complex''"
| "type_name (PStr s) = ''str''"
| "type_name (PBytes s) = ''bytes''"
| "type_name PNone = ''NoneType''"
| "type_name PEllipsis = ''ellipsis''"
| "type_name (PList xs) = ''list''"
| "type_name (PTuple xs) = ''tuple''"
| "type_name (PSet xs) = ''set''"
| "type_name (PDict kvs) = ''dict''"

text \<open>Integer value of an \<^verbatim>\<open>int\<close> instance: \<^verbatim>\<open>True\<close> is 1 and \<^verbatim>\<open>False\<close> is 0.\<close>

fun int_value :: "pyval \<Rightarrow> int" where
  "int_value (PInt n) = n"
| "int_value (PBool b) = (if b then 1 else 0)"
| "int_value v = 0"

subsection \<open>Text of values\<close>

definition digit_char :: "nat \<Rightarrow> char" where
  "digit_char d = ''0123456789abcdef'' ! d"

fun str_nat :: "nat \<Rightarrow> string" where
  "str_nat n = (if n < 10 then [digit_char n] else str_nat (n div 10) @ [digit_char (n mod 10)])"

declare str_nat.simps [simp del]

text \<open>\<^verbatim>\<open>str(n)\<close> of an \<^verbatim>\<open>int\<close>: decimal, with a minus sign when negative.\<close>

definition str_int :: "int \<Rightarrow> string" where
  "str_int n = (if n < 0 then CHR ''-'' # str_nat (nat (- n)) else str_nat (nat n))"

text \<open>
  What an f-string prints for an \<^verbatim>\<open>int\<close> instance: the decimal text of an \<^verbatim>\<open>int\<close>,
  \<^verbatim>\<open>True\<close> or \<^verbatim>\<open>False\<close> for a \<^verbatim>\<open>bool\<close>.
\<close>

fun format_int :: "pyval \<Rightarrow> string" where
  "format_int (PBool b) = (if b then ''True'' else ''False'')"
| "format_int v = str_int (int_value v)"

definition hex_escape :: "char \<Rightarrow> string" where
  "hex_escape c = [CHR 0x5C, CHR ''x'', digit_char (of_char c div 16), digit_char (of_char c mod 16)]"

text \<open>
  Code points below 256 that \<^verbatim>\<open>str.isprintable\<close> accepts: the ASCII range from space
  to tilde, and the Latin-1 range without the C1 controls, the no-break space and the
  soft hyphen.
\<close>

definition printable :: "char \<Rightarrow> bool" where
  "printable c = (let n = (of_char c :: nat) in
     (32 \<le> n \<and> n < 127) \<or> (161 \<le> n \<and> n \<noteq> 173))"

definition repr_quote :: "string \<Rightarrow> char" where
  "repr_quote s = (if CHR 0x27 \<in> set s \<and> CHR 0x22 \<notin> set s then CHR 0x22 else CHR 0x27)"

definition str_escape :: "char \<Rightarrow> char \<Rightarrow> string" where
  "str_escape q c =
     (if c = q \<or> c = CHR 0x5C then [CHR 0x5C, c]
      else if c = CHR 0x09 then [CHR 0x5C, CHR ''t'']
      else if c = CHR 0x0A then [CHR 0x5C, CHR ''n'']
      else if c = CHR 0x0D then [CHR 0x5C, CHR ''r'']
      else if printable c then [c]
      else hex_escape c)"

definition bytes_escape :: "char \<Rightarrow> char \<Rightarrow> string" where
  "bytes_escape q c =
     (if c = q \<or> c = CHR 0x5C then [CHR 0x5C, c]
      else if c = CHR 0x09 then [CHR 0x5C, CHR ''t'']
      else if c = CHR 0x0A then [CHR 0x5C, CHR ''n'']
      else if c = CHR 0x0D then [CHR 0x5C, CHR ''r'']
      else if (of_char c :: nat) < 32 \<or> 127 \<le> (of_char c :: nat) then hex_escape c
      else [c])"

definition str_repr :: "string \<Rightarrow> string" where
  "str_repr s = (let q = repr_quote s in q # concat (map (str_escape q) s) @ [q])"

definition bytes_repr :: "string \<Rightarrow> string" where
  "bytes_repr s = (let q = repr_quote s in CHR ''b'' # q # concat (map (bytes_escape q) s) @ [q])"

fun join :: "string \<Rightarrow> string list \<Rightarrow> string" where
  "join sep [] = []"
| "join sep [x] = x"
| "join sep (x # y # ys) = x @ sep @ join sep (y # ys)"

section \<open>The syntax tree of a parsed file\<close>

text \<open>
  The nodes of Python's \<^verbatim>\<open>ast\<close> module that the checker looks at. A \<open>Constant\<close> holds
  the value of a literal token; a negative number is \<open>UnaryOp USub\<close> of a constant. A
  \<open>Dict\<close> key is absent for a \<^verbatim>\<open>**\<close> entry. Every other expression or statement
  kind is \<open>OtherExpr\<close> or \<open>OtherStmt\<close>.
\<close>

datatype operator = Add | Sub | OtherOperator

datatype unaryop = UAdd | USub | UNot | Invert

datatype expr =
    Constant pyval
  | Name string
  | Tuple "expr list"
  | List "expr list"
  | Set "expr list"
  | Dict "expr option list" "expr list"
  | Call expr "expr list" "(string option \<times> expr) list"
  | BinOp expr operator expr
  | UnaryOp unaryop expr
  | Attribute expr string
  | Subscript expr expr
  | OtherExpr

datatype stmt =
    Assign "expr list" expr
  | AugAssign expr operator expr
  | AnnAssign expr expr "expr option"
  | Expr expr
  | Import "string list"
  | If expr "stmt list" "stmt list"
  | OtherStmt

section \<open>Exceptions and the interpreter\<close>

datatype pyexc =
    MalformedNode "expr option"
  | UnhashableType pyval
  | BadOperand pyval
  | OverflowError
  | KeyError string

text \<open>
  What the interpreter decides and the program text does not: the \<^verbatim>\<open>repr\<close> of a float,
  a complex number, a set and a dict (digits chosen by the float printer, order chosen
  by the hash), the text \<^verbatim>\<open>str(e)\<close> of an exception (it shows object addresses), and
  the sum and difference of a real number and a complex one.
\<close>

record runtime =
  repr_other :: "pyval \<Rightarrow> string"
  exc_text :: "pyexc \<Rightarrow> string"
  num_add :: "pyval \<Rightarrow> pyval \<Rightarrow> pyexc + pyval"
  num_sub :: "pyval \<Rightarrow> pyval \<Rightarrow> pyexc + pyval"

text \<open>\<^verbatim>\<open>repr(v)\<close>\<close>

fun repr :: "runtime \<Rightarrow> pyval \<Rightarrow> string" where
  "repr rt (PInt n) = str_int n"
| "repr rt (PBool b) = (if b then ''True'' else ''False'')"
| "repr rt (PStr s) = str_repr s"
| "repr rt (PBytes s) = bytes_repr s"
| "repr rt PNone = ''None''"
| "repr rt PEllipsis = ''Ellipsis''"
| "repr rt (PList xs) = ''['' @ join '', '' (map (repr rt) xs) @ '']''"
| "repr rt (PTuple xs) =
     (if length xs = 1 then ''('' @ join '', '' (map (repr rt) xs) @ '',)''
      else ''('' @ join '', '' (map (repr rt) xs) @ '')'')"
| "repr rt v = repr_other rt v"

section \<open>Shape checks\<close>

definition is_numeric :: "pyval \<Rightarrow> bool" where
  "is_numeric x = (isinstance_int x \<or> isinstance_float x)"

text \<open>The \<^verbatim>\<open>for i, el in enumerate(vec)\<close> loop of \<^verbatim>\<open>check_vector\<close>, from index \<open>i\<close> on.\<close>

fun check_vector_loop :: "runtime \<Rightarrow> nat \<Rightarrow> pyval list \<Rightarrow> bool \<times> string" where
  "check_vector_loop rt i [] = (True, [])"
| "check_vector_loop rt i (el # els) =
     (if \<not> is_numeric el
      then (False, ''Element at position '' @ str_int (int i) @ '' is not numeric: '' @ repr rt el)
      else check_vector_loop rt (Suc i) els)"

definition check_vector :: "runtime \<Rightarrow> pyval \<Rightarrow> int \<Rightarrow> bool \<times> string" where
  "check_vector rt vec len =
     (case vec of
        PList els \<Rightarrow>
          if int (length els) \<noteq> len
          then (False, ''Expected a list of length '' @ str_int len @ ''.'')
          else check_vector_loop rt 0 els
      | _ \<Rightarrow> (False, ''Expected a list of length '' @ str_int len @ ''.''))"

text \<open>
  The inner loop of \<^verbatim>\<open>check_matrix\<close> over one row: \<open>Some\<close> is the early return,
  \<open>None\<close> is the loop running to its end.
\<close>

fun check_row_loop :: "runtime \<Rightarrow> nat \<Rightarrow> nat \<Rightarrow> pyval list \<Rightarrow> (bool \<times> string) option" where
  "check_row_loop rt r_idx c_idx [] = None"
| "check_row_loop rt r_idx c_idx (el # els) =
     (if \<not> is_numeric el
      then Some (False, ''Non-numeric at ('' @ str_int (int r_idx) @ '','' @ str_int (int c_idx)
                          @ ''): '' @ repr rt el)
      else check_row_loop rt r_idx (Suc c_idx) els)"

fun check_matrix_loop :: "runtime \<Rightarrow> int \<Rightarrow> nat \<Rightarrow> pyval list \<Rightarrow> bool \<times> string" where
  "check_matrix_loop rt cols r_idx [] = (True, [])"
| "check_matrix_loop rt cols r_idx (row # rest) =
     (case row of
        PList els \<Rightarrow>
          if int (length els) \<noteq> cols
          then (False, ''Row '' @ str_int (int r_idx) @ '' must be a list with ''
                         @ str_int cols @ '' elements.'')
          else (case check_row_loop rt r_idx 0 els of
                  Some res \<Rightarrow> res
                | None \<Rightarrow> check_matrix_loop rt cols (Suc r_idx) rest)
      | _ \<Rightarrow> (False, ''Row '' @ str_int (int r_idx) @ '' must be a list with ''
                       @ str_int cols @ '' elements.''))"

definition check_matrix :: "runtime \<Rightarrow> pyval \<Rightarrow> int \<Rightarrow> int \<Rightarrow> bool \<times> string" where
  "check_matrix rt mat rows cols =
     (case mat of
        PList rs \<Rightarrow>
          if int (length rs) \<noteq> rows
          then (False, ''Expected a list with '' @ str_int rows @ '' rows.'')
          else check_matrix_loop rt cols 0 rs
      | _ \<Rightarrow> (False, ''Expected a list with '' @ str_int rows @ '' rows.''))"

section \<open>Literal evaluation\<close>

text \<open>
  \<^verbatim>\<open>ast.literal_eval\<close> of the standard library (CPython 3.9 and later), applied to a
  node. It is not part of the repository; the model follows its three nested helpers
  \<^verbatim>\<open>_convert_num\<close>, \<^verbatim>\<open>_convert_signed_num\<close> and \<^verbatim>\<open>_convert\<close> branch by branch.
  The interpreter's recursion limit is left out.
\<close>

text \<open>Unary plus and minus on a value.\<close>

fun num_pos :: "pyval \<Rightarrow> pyexc + pyval" where
  "num_pos (PInt n) = Inr (PInt n)"
| "num_pos (PBool b) = Inr (PInt (if b then 1 else 0))"
| "num_pos (PFloat f) = Inr (PFloat f)"
| "num_pos (PComplex re im) = Inr (PComplex re im)"
| "num_pos v = Inl (BadOperand v)"

definition float_neg :: "pyfloat \<Rightarrow> pyfloat" where
  "float_neg f = f XOR push_bit 63 1"

fun num_neg :: "pyval \<Rightarrow> pyexc + pyval" where
  "num_neg (PInt n) = Inr (PInt (- n))"
| "num_neg (PBool b) = Inr (PInt (if b then - 1 else 0))"
| "num_neg (PFloat f) = Inr (PFloat (float_neg f))"
| "num_neg (PComplex re im) = Inr (PComplex (float_neg re) (float_neg im))"
| "num_neg v = Inl (BadOperand v)"

text \<open>\<^verbatim>\<open>type(v) in (int, float, complex)\<close>: the exact type, so a \<^verbatim>\<open>bool\<close> is excluded.\<close>

fun exact_number :: "pyval \<Rightarrow> bool" where
  "exact_number (PInt n) = True"
| "exact_number (PFloat f) = True"
| "exact_number (PComplex re im) = True"
| "exact_number v = False"

fun convert_num :: "expr \<Rightarrow> pyexc + pyval" where
  "convert_num (Constant v) =
     (if exact_number v then Inr v else Inl (MalformedNode (Some (Constant v))))"
| "convert_num node = Inl (MalformedNode (Some node))"

fun convert_signed_num :: "expr \<Rightarrow> pyexc + pyval" where
  "convert_signed_num (UnaryOp op operand) =
     (if op = UAdd \<or> op = USub
      then (case convert_num operand of
              Inl e \<Rightarrow> Inl e
            | Inr v \<Rightarrow> if op = UAdd then num_pos v else num_neg v)
      else convert_num (UnaryOp op operand))"
| "convert_signed_num node = convert_num node"

text \<open>
  Objects that \<^verbatim>\<open>hash\<close> accepts: everything but lists, sets and dicts, and tuples
  that hold one of them.
\<close>

fun hashable :: "pyval \<Rightarrow> bool" where
  "hashable (PList xs) = False"
| "hashable (PSet xs) = False"
| "hashable (PDict kvs) = False"
| "hashable (PTuple xs) = list_all hashable xs"
| "hashable v = True"

text \<open>
  \<^verbatim>\<open>tuple(map(_convert, elts))\<close> and \<^verbatim>\<open>list(map(_convert, elts))\<close>: the elements
  are converted from left to right and the first exception ends the conversion.
\<close>

fun collect :: "(pyexc + pyval) list \<Rightarrow> pyexc + pyval list" where
  "collect [] = Inr []"
| "collect (Inl e # rs) = Inl e"
| "collect (Inr v # rs) = (case collect rs of Inl e \<Rightarrow> Inl e | Inr vs \<Rightarrow> Inr (v # vs))"

text \<open>\<^verbatim>\<open>set(map(_convert, elts))\<close>: each element is hashed as soon as it is converted.\<close>

fun collect_set :: "(pyexc + pyval) list \<Rightarrow> pyexc + pyval list" where
  "collect_set [] = Inr []"
| "collect_set (Inl e # rs) = Inl e"
| "collect_set (Inr v # rs) =
     (if \<not> hashable v then Inl (UnhashableType v)
      else (case collect_set rs of Inl e \<Rightarrow> Inl e | Inr vs \<Rightarrow> Inr (v # vs)))"

text \<open>
  \<^verbatim>\<open>dict(zip(map(_convert, keys), map(_convert, values)))\<close>: for each pair the key is
  converted, then the value, then the key is hashed.
\<close>

fun collect_dict :: "((pyexc + pyval) \<times> (pyexc + pyval)) list \<Rightarrow> pyexc + (pyval \<times> pyval) list" where
  "collect_dict [] = Inr []"
| "collect_dict ((Inl e, rv) # rs) = Inl e"
| "collect_dict ((Inr k, Inl e) # rs) = Inl e"
| "collect_dict ((Inr k, Inr v) # rs) =
     (if \<not> hashable k then Inl (UnhashableType k)
      else (case collect_dict rs of Inl e \<Rightarrow> Inl e | Inr kvs \<Rightarrow> Inr ((k, v) # kvs)))"

fun literal_eval :: "runtime \<Rightarrow> expr \<Rightarrow> pyexc + pyval" where
  "literal_eval rt (Constant v) = Inr v"
| "literal_eval rt (Tuple elts) =
     (case collect (map (literal_eval rt) elts) of Inl e \<Rightarrow> Inl e | Inr vs \<Rightarrow> Inr (PTuple vs))"
| "literal_eval rt (List elts) =
     (case collect (map (literal_eval rt) elts) of Inl e \<Rightarrow> Inl e | Inr vs \<Rightarrow> Inr (PList vs))"
| "literal_eval rt (Set elts) =
     (case collect_set (map (literal_eval rt) elts) of Inl e \<Rightarrow> Inl e | Inr vs \<Rightarrow> Inr (PSet vs))"
| "literal_eval rt (Call func args keywords) =
     (if func = Name ''set'' \<and> args = [] \<and> keywords = [] then Inr (PSet [])
      else convert_signed_num (Call func args keywords))"
| "literal_eval rt (Dict keys vals) =
     (if length keys \<noteq> length vals then Inl (MalformedNode (Some (Dict keys vals)))
      else (case collect_dict
                   (zip (map (\<lambda>k. case k of None \<Rightarrow> Inl (MalformedNode None)
                                          | Some key \<Rightarrow> literal_eval rt key) keys)
                        (map (literal_eval rt) vals)) of
              Inl e \<Rightarrow> Inl e
            | Inr kvs \<Rightarrow> Inr (PDict kvs)))"
| "literal_eval rt (BinOp left op right) =
     (if op = Add \<or> op = Sub
      then (case convert_signed_num left of
              Inl e \<Rightarrow> Inl e
            | Inr l \<Rightarrow>
                (case convert_num right of
                   Inl e \<Rightarrow> Inl e
                 | Inr r \<Rightarrow>
                     if (isinstance_int l \<or> isinstance_float l) \<and> isinstance_complex r
                     then (if op = Add then num_add rt l r else num_sub rt l r)
                     else convert_signed_num (BinOp left op right)))
      else convert_signed_num (BinOp left op right))"
| "literal_eval rt node = convert_signed_num node"

section \<open>Reading the assignments of a file\<close>

text \<open>
  What opening, reading and \<^verbatim>\<open>ast.parse\<close> give for a path: the file is missing,
  opening or reading raises another exception (with its text), parsing raises (with its
  text), or the file parses to a module whose body is a list of top-level statements.
\<close>

datatype source =
    FileNotFound
  | OpenFailed string
  | ParseFailed string
  | Module "stmt list"

text \<open>
  The dict \<^verbatim>\<open>out\<close> is an association list in insertion order with distinct keys;
  \<^verbatim>\<open>out[name] = val\<close> replaces the value of a present key in place and appends a
  new key at the end, which is \<open>AList.update\<close>.
\<close>

type_synonym assignments = "(string \<times> pyval) list"

text \<open>The \<^verbatim>\<open>for node in tree.body\<close> loop, with the dict built so far.\<close>

fun collect_assignments ::
  "runtime \<Rightarrow> assignments \<Rightarrow> stmt list \<Rightarrow> assignments \<times> string option" where
  "collect_assignments rt out [] = (out, None)"
| "collect_assignments rt out (node # rest) =
     (case node of
        Assign targets val \<Rightarrow>
          if length targets = 1
          then (case targets ! 0 of
                  Name name \<Rightarrow>
                    (case literal_eval rt val of
                       Inl e \<Rightarrow> ([], Some (''Could not parse value for '' @ name @ '': '' @ exc_text rt e))
                     | Inr v \<Rightarrow> collect_assignments rt (AList.update name v out) rest)
                | _ \<Rightarrow> collect_assignments rt out rest)
          else collect_assignments rt out rest
      | _ \<Rightarrow> collect_assignments rt out rest)"

definition read_assignments_multiline ::
  "runtime \<Rightarrow> string \<Rightarrow> source \<Rightarrow> assignments \<times> string option" where
  "read_assignments_multiline rt path src =
     (case src of
        FileNotFound \<Rightarrow> ([], Some (''File not found: '' @ path))
      | OpenFailed e \<Rightarrow> ([], Some (''Error opening '' @ path @ '': '' @ e))
      | ParseFailed e \<Rightarrow> ([], Some (''Could not parse file as Python: '' @ e))
      | Module body \<Rightarrow> collect_assignments rt [] body)"

section \<open>File checks\<close>

text \<open>\<^verbatim>\<open>k in vars_out\<close> and \<^verbatim>\<open>vars_out[name]\<close>; the latter raises when the key is absent.\<close>

definition contains :: "assignments \<Rightarrow> string \<Rightarrow> bool" where
  "contains vars_out k = (map_of vars_out k \<noteq> None)"

definition subscript :: "assignments \<Rightarrow> string \<Rightarrow> pyexc + pyval" where
  "subscript vars_out name =
     (case map_of vars_out name of None \<Rightarrow> Inl (KeyError name) | Some v \<Rightarrow> Inr v)"

text \<open>
  The loop shared by both file checks:
  \<^verbatim>\<open>for k in required: if k not in vars_out: errors.append(f"Missing variable: {k}")\<close>
\<close>

fun missing_loop :: "assignments \<Rightarrow> string list \<Rightarrow> string list \<Rightarrow> string list" where
  "missing_loop vars_out errors [] = errors"
| "missing_loop vars_out errors (k # ks) =
     missing_loop vars_out
       (if \<not> contains vars_out k then errors @ [''Missing variable: '' @ k] else errors) ks"

subsection \<open>The config file\<close>

definition required_config :: "string list" where
  "required_config =
     [''r'', ''num_trainable_lora'', ''P'', ''num_trainable_soft'', ''d_a'',
      ''num_trainable_adapters'', ''num_trainable_ia3'']"

text \<open>The closure \<^verbatim>\<open>_assert_int_nonneg\<close>; it appends to the enclosing \<^verbatim>\<open>errors\<close>.\<close>

definition assert_int_nonneg :: "assignments \<Rightarrow> string list \<Rightarrow> string \<Rightarrow> pyexc + string list" where
  "assert_int_nonneg vars_out errors name =
     (case subscript vars_out name of
        Inl e \<Rightarrow> Inl e
      | Inr v \<Rightarrow>
          if \<not> isinstance_int v
          then Inr (errors @ [name @ '' must be an integer (got '' @ type_name v @ '').''])
          else if int_value v < 0
          then Inr (errors @ [name @ '' must be >= 0 (got '' @ format_int v @ '').''])
          else Inr errors)"

fun assert_loop :: "assignments \<Rightarrow> string list \<Rightarrow> string list \<Rightarrow> pyexc + string list" where
  "assert_loop vars_out errors [] = Inr errors"
| "assert_loop vars_out errors (name # names) =
     (case assert_int_nonneg vars_out errors name of
        Inl e \<Rightarrow> Inl e
      | Inr errors' \<Rightarrow> assert_loop vars_out errors' names)"

text \<open>
  The evenness loop. Its condition is a chain of \<^verbatim>\<open>and\<close>, so the subscript is only
  evaluated for a present key, and \<^verbatim>\<open>%\<close> only for an \<^verbatim>\<open>int\<close> instance. Python's
  \<^verbatim>\<open>%\<close> with a positive right operand is \<open>mod\<close>.
\<close>

fun even_loop :: "assignments \<Rightarrow> string list \<Rightarrow> string list \<Rightarrow> string list" where
  "even_loop vars_out errors [] = errors"
| "even_loop vars_out errors (name # names) =
     even_loop vars_out
       (case map_of vars_out name of
          None \<Rightarrow> errors
        | Some v \<Rightarrow>
            if isinstance_int v \<and> int_value v mod 2 \<noteq> 0
            then errors @ [name @ '' must be even (got '' @ format_int v @ '').'']
            else errors)
       names"

text \<open>\<^verbatim>\<open>check_peft_config\<close> from the point where the file has been read without error.\<close>

definition check_peft_config_vars :: "assignments \<Rightarrow> pyexc + string list" where
  "check_peft_config_vars vars_out =
     (let errors = missing_loop vars_out [] required_config in
      if errors \<noteq> [] then Inr errors
      else (case assert_loop vars_out errors
                   [''r'', ''P'', ''d_a'', ''num_trainable_lora'', ''num_trainable_soft'',
                    ''num_trainable_adapters'', ''num_trainable_ia3''] of
              Inl e \<Rightarrow> Inl e
            | Inr errors' \<Rightarrow> Inr (even_loop vars_out errors' [''r'', ''P'', ''d_a''])))"

text \<open>
  \<^verbatim>\<open>if err: return [err]\<close> is taken for a string that is not empty; \<^verbatim>\<open>None\<close>
  and the empty string go on to the checks.
\<close>

definition check_peft_config :: "runtime \<Rightarrow> string \<Rightarrow> source \<Rightarrow> pyexc + string list" where
  "check_peft_config rt path src =
     (case read_assignments_multiline rt path src of
        (vars_out, err) \<Rightarrow>
          (case err of
             None \<Rightarrow> check_peft_config_vars vars_out
           | Some msg \<Rightarrow> if msg \<noteq> [] then Inr [msg] else check_peft_config_vars vars_out))"

subsection \<open>The data file\<close>

definition required_peft :: "string list" where
  "required_peft = [''b'', ''A'', ''B'', ''Wprime'']"

text \<open>One of the four steps: look the variable up, run its check, append on failure.\<close>

definition check_b :: "runtime \<Rightarrow> assignments \<Rightarrow> string list \<Rightarrow> pyexc + string list" where
  "check_b rt vars_out errors =
     (case subscript vars_out ''b'' of
        Inl e \<Rightarrow> Inl e
      | Inr v \<Rightarrow>
          (case check_vector rt v 4 of
             (ok, msg) \<Rightarrow>
               if \<not> ok then Inr (errors @ [''b must be a numeric list of length 4: '' @ msg])
               else Inr errors))"

definition check_A :: "runtime \<Rightarrow> assignments \<Rightarrow> string list \<Rightarrow> pyexc + string list" where
  "check_A rt vars_out errors =
     (case subscript vars_out ''A'' of
        Inl e \<Rightarrow> Inl e
      | Inr v \<Rightarrow>
          (case check_matrix rt v 2 1 of
             (ok, msg) \<Rightarrow>
               if \<not> ok then Inr (errors @ [''A must be a 2x1 numeric matrix: '' @ msg])
               else Inr errors))"

definition check_B :: "runtime \<Rightarrow> assignments \<Rightarrow> string list \<Rightarrow> pyexc + string list" where
  "check_B rt vars_out errors =
     (case subscript vars_out ''B'' of
        Inl e \<Rightarrow> Inl e
      | Inr v \<Rightarrow>
          (case check_matrix rt v 1 4 of
             (ok, msg) \<Rightarrow>
               if \<not> ok then Inr (errors @ [''B must be a 1x4 numeric matrix: '' @ msg])
               else Inr errors))"

definition check_Wprime :: "runtime \<Rightarrow> assignments \<Rightarrow> string list \<Rightarrow> pyexc + string list" where
  "check_Wprime rt vars_out errors =
     (case subscript vars_out ''Wprime'' of
        Inl e \<Rightarrow> Inl e
      | Inr v \<Rightarrow>
          (case check_matrix rt v 2 4 of
             (ok, msg) \<Rightarrow>
               if \<not> ok then Inr (errors @ [''Wprime must be a 2x4 numeric matrix: '' @ msg])
               else Inr errors))"

text \<open>\<^verbatim>\<open>check_peft\<close> from the point where the file has been read without error.\<close>

definition check_peft_vars :: "runtime \<Rightarrow> assignments \<Rightarrow> pyexc + string list" where
  "check_peft_vars rt vars_out =
     (let errors = missing_loop vars_out [] required_peft in
      if errors \<noteq> [] then Inr errors
      else (case check_b rt vars_out errors of
              Inl e \<Rightarrow> Inl e
            | Inr errors1 \<Rightarrow>
                (case check_A rt vars_out errors1 of
                   Inl e \<Rightarrow> Inl e
                 | Inr errors2 \<Rightarrow>
                     (case check_B rt vars_out errors2 of
                        Inl e \<Rightarrow> Inl e
                      | Inr errors3 \<Rightarrow> check_Wprime rt vars_out errors3))))"

definition check_peft :: "runtime \<Rightarrow> string \<Rightarrow> source \<Rightarrow> pyexc + string list" where
  "check_peft rt path src =
     (case read_assignments_multiline rt path src of
        (vars_out, err) \<Rightarrow>
          (case err of
             None \<Rightarrow> check_peft_vars rt vars_out
           | Some msg \<Rightarrow> if msg \<noteq> [] then Inr [msg] else check_peft_vars rt vars_out))"

section \<open>A sample interpreter\<close>

text \<open>
  An instance of the interpreter's part, used to run the model on concrete inputs. It
  prints the values it is asked about as \<^verbatim>\<open><object>\<close>, every exception as
  \<^verbatim>\<open>error\<close>, and keeps the complex operand of a sum or difference.
\<close>

definition sample_runtime :: runtime where
  "sample_runtime =
     \<lparr> repr_other = (\<lambda>v. ''<object>''),
       exc_text = (\<lambda>e. ''error''),
       num_add = (\<lambda>l r. Inr r),
       num_sub = (\<lambda>l r. Inr r) \<rparr>"

section \<open>Vocabulary of the properties\<close>

text \<open>
  The errors that \<^verbatim>\<open>_assert_int_nonneg\<close> and the evenness loop contribute for one
  variable, as a function of the assignments alone.
\<close>

definition int_nonneg_errors :: "assignments \<Rightarrow> string \<Rightarrow> string list" where
  "int_nonneg_errors vars_out name =
     (case map_of vars_out name of
        None \<Rightarrow> []
      | Some v \<Rightarrow>
          if \<not> isinstance_int v then [name @ '' must be an integer (got '' @ type_name v @ '').'']
          else if int_value v < 0 then [name @ '' must be >= 0 (got '' @ format_int v @ '').'']
          else [])"

definition even_errors :: "assignments \<Rightarrow> string \<Rightarrow> string list" where
  "even_errors vars_out name =
     (case map_of vars_out name of
        None \<Rightarrow> []
      | Some v \<Rightarrow>
          if isinstance_int v \<and> int_value v mod 2 \<noteq> 0
          then [name @ '' must be even (got '' @ format_int v @ '').'']
          else [])"

text \<open>
  Recognisers for the three kinds of message the config check writes about a variable:
  each message starts with the variable's name and the fixed words of its kind.
\<close>

definition type_error_for :: "string \<Rightarrow> string \<Rightarrow> bool" where
  "type_error_for name s = prefix (name @ '' must be an integer (got '') s"

definition sign_error_for :: "string \<Rightarrow> string \<Rightarrow> bool" where
  "sign_error_for name s = prefix (name @ '' must be >= 0 (got '') s"

definition parity_error_for :: "string \<Rightarrow> string \<Rightarrow> bool" where
  "parity_error_for name s = prefix (name @ '' must be even (got '') s"

text \<open>
  The statements the reading loop acts on: an assignment with exactly one target that is
  a plain name. Every other statement is passed over.
\<close>

fun name_assign :: "stmt \<Rightarrow> (string \<times> expr) option" where
  "name_assign (Assign [Name name] val) = Some (name, val)"
| "name_assign node = None"

text \<open>
  The names and values of the name assignments of a body whose right-hand side
  evaluates, in the order of the file.
\<close>

fun evaluated :: "runtime \<Rightarrow> stmt list \<Rightarrow> (string \<times> pyval) list" where
  "evaluated rt [] = []"
| "evaluated rt (node # rest) =
     (case name_assign node of
        None \<Rightarrow> evaluated rt rest
      | Some (name, val) \<Rightarrow>
          (case literal_eval rt val of
             Inl e \<Rightarrow> evaluated rt rest
           | Inr v \<Rightarrow> (name, v) # evaluated rt rest))"

section \<open>Properties of the checks\<close>

subsection \<open>The loops in closed form\<close>

lemma missing_loop_eq:
  "missing_loop vars_out errors ks =
     errors @ map (\<lambda>k. ''Missing variable: '' @ k) (filter (\<lambda>k. \<not> contains vars_out k) ks)"
  by (induction ks arbitrary: errors) simp_all

lemma assert_loop_eq:
  "list_all (contains vars_out) names \<Longrightarrow>
   assert_loop vars_out errors names = Inr (errors @ concat (map (int_nonneg_errors vars_out) names))"
proof (induction names arbitrary: errors)
  case Nil
  then show ?case by simp
next
  case (Cons name names)
  from Cons.prems obtain v where v: "map_of vars_out name = Some v"
    by (auto simp: contains_def)
  from Cons.prems have rest: "list_all (contains vars_out) names" by simp
  show ?case
    using v Cons.IH [OF rest]
    by (simp add: assert_int_nonneg_def subscript_def int_nonneg_errors_def)
qed

lemma even_loop_eq:
  "even_loop vars_out errors names = errors @ concat (map (even_errors vars_out) names)"
  by (induction names arbitrary: errors) (simp_all add: even_errors_def split: option.split)

lemma check_peft_config_vars_missing:
  "\<not> list_all (contains vars_out) required_config \<Longrightarrow>
   check_peft_config_vars vars_out =
     Inr (map (\<lambda>k. ''Missing variable: '' @ k) (filter (\<lambda>k. \<not> contains vars_out k) required_config))"
  by (simp add: check_peft_config_vars_def missing_loop_eq Let_def filter_empty_conv list_all_iff)

lemma check_peft_config_vars_present:
  assumes "list_all (contains vars_out) required_config"
  shows "check_peft_config_vars vars_out =
     Inr (concat (map (int_nonneg_errors vars_out)
            [''r'', ''P'', ''d_a'', ''num_trainable_lora'', ''num_trainable_soft'',
             ''num_trainable_adapters'', ''num_trainable_ia3''])
          @ concat (map (even_errors vars_out) [''r'', ''P'', ''d_a'']))"
proof -
  have none: "missing_loop vars_out [] required_config = []"
    using assms by (simp add: missing_loop_eq filter_empty_conv list_all_iff)
  have all: "list_all (contains vars_out)
     [''r'', ''P'', ''d_a'', ''num_trainable_lora'', ''num_trainable_soft'',
      ''num_trainable_adapters'', ''num_trainable_ia3'']"
    using assms by (simp add: required_config_def)
  show ?thesis
    unfolding check_peft_config_vars_def Let_def none
    by (simp only: assert_loop_eq [OF all] even_loop_eq) simp
qed

lemma check_peft_vars_missing:
  "\<not> list_all (contains vars_out) required_peft \<Longrightarrow>
   check_peft_vars rt vars_out =
     Inr (map (\<lambda>k. ''Missing variable: '' @ k) (filter (\<lambda>k. \<not> contains vars_out k) required_peft))"
  by (simp add: check_peft_vars_def missing_loop_eq Let_def filter_empty_conv list_all_iff)

lemma int_nonneg_errors_valid:
  "map_of vars_out name = Some (PInt n) \<Longrightarrow> 0 \<le> n \<Longrightarrow> int_nonneg_errors vars_out name = []"
  by (simp add: int_nonneg_errors_def)

lemma even_errors_valid:
  "map_of vars_out name = Some (PInt n) \<Longrightarrow> n mod 2 = 0 \<Longrightarrow> even_errors vars_out name = []"
  by (simp add: even_errors_def)

lemma contains_Some: "map_of vars_out name = Some v \<Longrightarrow> contains vars_out name"
  by (simp add: contains_def)

subsection \<open>Missing variables\<close>

text \<open>
  C4. When at least one required variable is absent from the assignments, the config
  check (and likewise the data check) returns exactly one \<^verbatim>\<open>Missing variable: <name>\<close>
  error per absent required name, in the order of the required list, and nothing else.
\<close>

theorem missing_variable_short_circuit:
  "(\<not> list_all (contains vars_out) required_config \<longrightarrow>
      check_peft_config_vars vars_out =
        Inr (map (\<lambda>k. ''Missing variable: '' @ k)
               (filter (\<lambda>k. \<not> contains vars_out k) required_config)))
   \<and> (\<not> list_all (contains vars_out) required_peft \<longrightarrow>
      check_peft_vars rt vars_out =
        Inr (map (\<lambda>k. ''Missing variable: '' @ k)
               (filter (\<lambda>k. \<not> contains vars_out k) required_peft)))"
  using check_peft_config_vars_missing check_peft_vars_missing by blast

theorem missing_variable_short_circuit_witness:
  "\<not> list_all (contains [(''r'', PStr ''x''), (''b'', PInt 1)]) required_config
   \<and> check_peft_config_vars [(''r'', PStr ''x''), (''b'', PInt 1)] =
       Inr [''Missing variable: num_trainable_lora'', ''Missing variable: P'',
            ''Missing variable: num_trainable_soft'', ''Missing variable: d_a'',
            ''Missing variable: num_trainable_adapters'', ''Missing variable: num_trainable_ia3'']
   \<and> \<not> list_all (contains [(''r'', PStr ''x''), (''b'', PInt 1)]) required_peft
   \<and> check_peft_vars sample_runtime [(''r'', PStr ''x''), (''b'', PInt 1)] =
       Inr [''Missing variable: A'', ''Missing variable: B'', ''Missing variable: Wprime'']"
  using missing_variable_short_circuit [of "[(''r'', PStr ''x''), (''b'', PInt 1)]" sample_runtime]
  by (simp add: required_config_def required_peft_def contains_def)

subsection \<open>A valid config file\<close>

text \<open>
  C5. When all seven required config variables are bound to non-negative integers and
  \<^verbatim>\<open>r\<close>, \<^verbatim>\<open>P\<close> and \<^verbatim>\<open>d_a\<close> are even, the config check returns the empty list.
\<close>

theorem valid_config_no_errors:
  assumes "map_of vars_out ''r'' = Some (PInt r)" "0 \<le> r" "r mod 2 = 0"
    and "map_of vars_out ''num_trainable_lora'' = Some (PInt lora)" "0 \<le> lora"
    and "map_of vars_out ''P'' = Some (PInt p)" "0 \<le> p" "p mod 2 = 0"
    and "map_of vars_out ''num_trainable_soft'' = Some (PInt soft)" "0 \<le> soft"
    and "map_of vars_out ''d_a'' = Some (PInt d)" "0 \<le> d" "d mod 2 = 0"
    and "map_of vars_out ''num_trainable_adapters'' = Some (PInt adapters)" "0 \<le> adapters"
    and "map_of vars_out ''num_trainable_ia3'' = Some (PInt ia)" "0 \<le> ia"
  shows "check_peft_config_vars vars_out = Inr []"
proof -
  have "list_all (contains vars_out) required_config"
    using assms by (simp add: required_config_def contains_Some)
  then show ?thesis
    using assms
    by (simp add: check_peft_config_vars_present int_nonneg_errors_valid even_errors_valid)
qed

theorem valid_config_no_errors_witness:
  "check_peft_config_vars
     [(''r'', PInt 4), (''num_trainable_lora'', PInt 8), (''P'', PInt 2),
      (''num_trainable_soft'', PInt 16), (''d_a'', PInt 6),
      (''num_trainable_adapters'', PInt 12), (''num_trainable_ia3'', PInt 0)] = Inr []"
  by (rule valid_config_no_errors [where r = 4 and lora = 8 and p = 2 and soft = 16 and d = 6
        and adapters = 12 and ia = 0]) simp_all

subsection \<open>Decimal text of small numbers\<close>

lemma str_int_digits:
  "str_int 0 = ''0''" "str_int 1 = ''1''" "str_int 2 = ''2''" "str_int 3 = ''3''"
  "str_int 4 = ''4''" "str_int (- 2) = ''-2''" "str_int (- 3) = ''-3''"
  by (simp_all add: str_int_def str_nat.simps digit_char_def)

subsection \<open>Parity and sign\<close>

text \<open>
  C6. The sign check and the parity check of \<^verbatim>\<open>r\<close> are independent. With the six other
  required variables valid and \<^verbatim>\<open>r\<close> bound to any integer, the config check returns
  the sign error for \<^verbatim>\<open>r\<close> exactly when \<^verbatim>\<open>r\<close> is negative, followed by the parity
  error for \<^verbatim>\<open>r\<close> exactly when \<^verbatim>\<open>r\<close> is odd, and nothing else. So \<^verbatim>\<open>r = 3\<close> yields
  exactly one error, the parity error naming \<^verbatim>\<open>r\<close> and the value 3; \<^verbatim>\<open>r = -2\<close> yields
  exactly the sign error and no parity error; and \<^verbatim>\<open>r = -3\<close> yields both.
\<close>

theorem parity_and_sign_independent:
  assumes "map_of vars_out ''num_trainable_lora'' = Some (PInt lora)" "0 \<le> lora"
    and "map_of vars_out ''P'' = Some (PInt p)" "0 \<le> p" "p mod 2 = 0"
    and "map_of vars_out ''num_trainable_soft'' = Some (PInt soft)" "0 \<le> soft"
    and "map_of vars_out ''d_a'' = Some (PInt d)" "0 \<le> d" "d mod 2 = 0"
    and "map_of vars_out ''num_trainable_adapters'' = Some (PInt adapters)" "0 \<le> adapters"
    and "map_of vars_out ''num_trainable_ia3'' = Some (PInt ia)" "0 \<le> ia"
  shows "(map_of vars_out ''r'' = Some (PInt r) \<longrightarrow>
            check_peft_config_vars vars_out =
              Inr ((if r < 0 then [''r must be >= 0 (got '' @ str_int r @ '').''] else [])
                 @ (if r mod 2 \<noteq> 0 then [''r must be even (got '' @ str_int r @ '').''] else [])))
       \<and> (map_of vars_out ''r'' = Some (PInt 3) \<longrightarrow>
            check_peft_config_vars vars_out = Inr [''r must be even (got 3).''])
       \<and> (map_of vars_out ''r'' = Some (PInt (- 2)) \<longrightarrow>
            check_peft_config_vars vars_out = Inr [''r must be >= 0 (got -2).''])
       \<and> (map_of vars_out ''r'' = Some (PInt (- 3)) \<longrightarrow>
            check_peft_config_vars vars_out =
              Inr [''r must be >= 0 (got -3).'', ''r must be even (got -3).''])"
proof -
  have general: "check_peft_config_vars vars_out =
              Inr ((if x < 0 then [''r must be >= 0 (got '' @ str_int x @ '').''] else [])
                 @ (if x mod 2 \<noteq> 0 then [''r must be even (got '' @ str_int x @ '').''] else []))"
    if r: "map_of vars_out ''r'' = Some (PInt x)" for x
  proof -
    have "list_all (contains vars_out) required_config"
      using assms r by (simp add: required_config_def contains_Some)
    then show ?thesis
      using assms
      by (simp add: check_peft_config_vars_present int_nonneg_errors_valid even_errors_valid)
         (simp add: r int_nonneg_errors_def even_errors_def)
  qed
  show ?thesis
    using general [of r] general [of 3] general [of "- 2"] general [of "- 3"]
    by (simp add: str_int_digits)
qed

theorem parity_and_sign_independent_witness:
  "check_peft_config_vars
     [(''r'', PInt 3), (''num_trainable_lora'', PInt 8), (''P'', PInt 2),
      (''num_trainable_soft'', PInt 16), (''d_a'', PInt 6),
      (''num_trainable_adapters'', PInt 12), (''num_trainable_ia3'', PInt 0)]
     = Inr [''r must be even (got 3).'']
   \<and> check_peft_config_vars
     [(''r'', PInt (- 2)), (''num_trainable_lora'', PInt 8), (''P'', PInt 2),
      (''num_trainable_soft'', PInt 16), (''d_a'', PInt 6),
      (''num_trainable_adapters'', PInt 12), (''num_trainable_ia3'', PInt 0)]
     = Inr [''r must be >= 0 (got -2).'']
   \<and> check_peft_config_vars
     [(''r'', PInt (- 3)), (''num_trainable_lora'', PInt 8), (''P'', PInt 2),
      (''num_trainable_soft'', PInt 16), (''d_a'', PInt 6),
      (''num_trainable_adapters'', PInt 12), (''num_trainable_ia3'', PInt 0)]
     = Inr [''r must be >= 0 (got -3).'', ''r must be even (got -3).'']
   \<and> check_peft_config_vars
     [(''r'', PInt 4), (''num_trainable_lora'', PInt 8), (''P'', PInt 2),
      (''num_trainable_soft'', PInt 16), (''d_a'', PInt 6),
      (''num_trainable_adapters'', PInt 12), (''num_trainable_ia3'', PInt 0)]
     = Inr []"
  using parity_and_sign_independent [of
      "[(''r'', PInt 3), (''num_trainable_lora'', PInt 8), (''P'', PInt 2),
      (''num_trainable_soft'', PInt 16), (''d_a'', PInt 6),
      (''num_trainable_adapters'', PInt 12), (''num_trainable_ia3'', PInt 0)]" 8 2 16 6 12 0 3]
    parity_and_sign_independent [of
      "[(''r'', PInt (- 2)), (''num_trainable_lora'', PInt 8), (''P'', PInt 2),
      (''num_trainable_soft'', PInt 16), (''d_a'', PInt 6),
      (''num_trainable_adapters'', PInt 12), (''num_trainable_ia3'', PInt 0)]" 8 2 16 6 12 0 "- 2"]
    parity_and_sign_independent [of
      "[(''r'', PInt (- 3)), (''num_trainable_lora'', PInt 8), (''P'', PInt 2),
      (''num_trainable_soft'', PInt 16), (''d_a'', PInt 6),
      (''num_trainable_adapters'', PInt 12), (''num_trainable_ia3'', PInt 0)]" 8 2 16 6 12 0 "- 3"]
    parity_and_sign_independent [of
      "[(''r'', PInt 4), (''num_trainable_lora'', PInt 8), (''P'', PInt 2),
      (''num_trainable_soft'', PInt 16), (''d_a'', PInt 6),
      (''num_trainable_adapters'', PInt 12), (''num_trainable_ia3'', PInt 0)]" 8 2 16 6 12 0 4]
  by (simp add: str_int_digits)

subsection \<open>The data checks in closed form\<close>

lemma check_peft_vars_present:
  assumes "map_of vars_out ''b'' = Some b" "map_of vars_out ''A'' = Some A"
    and "map_of vars_out ''B'' = Some B" "map_of vars_out ''Wprime'' = Some W"
  shows "check_peft_vars rt vars_out =
     Inr ((if fst (check_vector rt b 4) then []
           else [''b must be a numeric list of length 4: '' @ snd (check_vector rt b 4)])
        @ (if fst (check_matrix rt A 2 1) then []
           else [''A must be a 2x1 numeric matrix: '' @ snd (check_matrix rt A 2 1)])
        @ (if fst (check_matrix rt B 1 4) then []
           else [''B must be a 1x4 numeric matrix: '' @ snd (check_matrix rt B 1 4)])
        @ (if fst (check_matrix rt W 2 4) then []
           else [''Wprime must be a 2x4 numeric matrix: '' @ snd (check_matrix rt W 2 4)]))"
proof -
  have none: "missing_loop vars_out [] required_peft = []"
    using assms by (simp add: missing_loop_eq required_peft_def contains_def)
  show ?thesis
    unfolding check_peft_vars_def Let_def none
    using assms
    by (simp add: check_b_def check_A_def check_B_def check_Wprime_def subscript_def
                  case_prod_beta)
qed

subsection \<open>The shape checks on sample values\<close>

lemma check_vector_eval:
  "check_vector rt (PList [PInt 1, PInt 2, PInt 3]) 4 = (False, ''Expected a list of length 4.'')"
  "check_vector rt (PList [PInt 1, PInt 2, PInt 3, PInt 4]) 4 = (True, [])"
  by (simp_all add: check_vector_def is_numeric_def str_int_digits)

lemma check_matrix_eval:
  "check_matrix rt (PList [PList [PInt 1, PInt 2], PList [PInt 3, PInt 4]]) 2 1 =
     (False, ''Row 0 must be a list with 1 elements.'')"
  "check_matrix rt (PList [PList [PInt 1], PList [PInt 2]]) 2 1 = (True, [])"
  "check_matrix rt (PList [PList [PInt 1, PInt 2, PInt 3, PInt 4]]) 1 4 = (True, [])"
  "check_matrix rt (PList [PList [PInt 1, PInt 2, PInt 3, PInt 4],
                           PList [PInt 5, PInt 6, PInt 7, PInt 8]]) 2 4 = (True, [])"
  "check_matrix rt (PList [PList [PBool True, PInt 2, PInt 3, PInt 4],
                           PList [PInt 5, PInt 6, PInt 7, PInt 8]]) 2 4 = (True, [])"
  by (simp_all add: check_matrix_def is_numeric_def str_int_digits)

subsection \<open>The four data checks\<close>

text \<open>
  C7. When all four required data variables are present, the data check runs the vector
  check of \<^verbatim>\<open>b\<close> and the matrix checks of \<^verbatim>\<open>A\<close>, \<^verbatim>\<open>B\<close> and \<^verbatim>\<open>Wprime\<close> each on its
  own: the result is the list, in that order, of the prefixed messages of those checks
  that fail, whatever the others return, and it is empty when all four succeed.
\<close>

theorem data_checks_independent:
  assumes "map_of vars_out ''b'' = Some b" "map_of vars_out ''A'' = Some A"
    and "map_of vars_out ''B'' = Some B" "map_of vars_out ''Wprime'' = Some W"
  shows "check_peft_vars rt vars_out =
     Inr ((if fst (check_vector rt b 4) then []
           else [''b must be a numeric list of length 4: '' @ snd (check_vector rt b 4)])
        @ (if fst (check_matrix rt A 2 1) then []
           else [''A must be a 2x1 numeric matrix: '' @ snd (check_matrix rt A 2 1)])
        @ (if fst (check_matrix rt B 1 4) then []
           else [''B must be a 1x4 numeric matrix: '' @ snd (check_matrix rt B 1 4)])
        @ (if fst (check_matrix rt W 2 4) then []
           else [''Wprime must be a 2x4 numeric matrix: '' @ snd (check_matrix rt W 2 4)]))
     \<and> (fst (check_vector rt b 4) \<and> fst (check_matrix rt A 2 1)
          \<and> fst (check_matrix rt B 1 4) \<and> fst (check_matrix rt W 2 4)
        \<longrightarrow> check_peft_vars rt vars_out = Inr [])"
  using check_peft_vars_present [OF assms, of rt] by simp

theorem data_checks_independent_witness:
  "check_peft_vars sample_runtime
     [(''b'', PList [PInt 1, PInt 2, PInt 3]),
      (''A'', PList [PList [PInt 1, PInt 2], PList [PInt 3, PInt 4]]),
      (''B'', PList [PList [PInt 1, PInt 2, PInt 3, PInt 4]]),
      (''Wprime'', PList [PList [PInt 1, PInt 2, PInt 3, PInt 4],
                          PList [PInt 5, PInt 6, PInt 7, PInt 8]])]
   = Inr [''b must be a numeric list of length 4: Expected a list of length 4.'',
          ''A must be a 2x1 numeric matrix: Row 0 must be a list with 1 elements.'']
   \<and> check_peft_vars sample_runtime
     [(''b'', PList [PInt 1, PInt 2, PInt 3, PInt 4]),
      (''A'', PList [PList [PInt 1], PList [PInt 2]]),
      (''B'', PList [PList [PInt 1, PInt 2, PInt 3, PInt 4]]),
      (''Wprime'', PList [PList [PInt 1, PInt 2, PInt 3, PInt 4],
                          PList [PInt 5, PInt 6, PInt 7, PInt 8]])]
   = Inr []"
  using data_checks_independent [of
     "[(''b'', PList [PInt 1, PInt 2, PInt 3]),
      (''A'', PList [PList [PInt 1, PInt 2], PList [PInt 3, PInt 4]]),
      (''B'', PList [PList [PInt 1, PInt 2, PInt 3, PInt 4]]),
      (''Wprime'', PList [PList [PInt 1, PInt 2, PInt 3, PInt 4],
                          PList [PInt 5, PInt 6, PInt 7, PInt 8]])]"
     "PList [PInt 1, PInt 2, PInt 3]"
     "PList [PList [PInt 1, PInt 2], PList [PInt 3, PInt 4]]"
     "PList [PList [PInt 1, PInt 2, PInt 3, PInt 4]]"
     "PList [PList [PInt 1, PInt 2, PInt 3, PInt 4], PList [PInt 5, PInt 6, PInt 7, PInt 8]]"
     sample_runtime]
   data_checks_independent [of
     "[(''b'', PList [PInt 1, PInt 2, PInt 3, PInt 4]),
      (''A'', PList [PList [PInt 1], PList [PInt 2]]),
      (''B'', PList [PList [PInt 1, PInt 2, PInt 3, PInt 4]]),
      (''Wprime'', PList [PList [PInt 1, PInt 2, PInt 3, PInt 4],
                          PList [PInt 5, PInt 6, PInt 7, PInt 8]])]"
     "PList [PInt 1, PInt 2, PInt 3, PInt 4]"
     "PList [PList [PInt 1], PList [PInt 2]]"
     "PList [PList [PInt 1, PInt 2, PInt 3, PInt 4]]"
     "PList [PList [PInt 1, PInt 2, PInt 3, PInt 4], PList [PInt 5, PInt 6, PInt 7, PInt 8]]"
     sample_runtime]
  by (simp add: check_vector_eval check_matrix_eval)

subsection \<open>Telling the messages of different variables apart\<close>

lemma prefix_space_free:
  "CHR '' '' \<notin> set a \<Longrightarrow> CHR '' '' \<notin> set b \<Longrightarrow>
   prefix (a @ CHR '' '' # x) (b @ CHR '' '' # y) \<Longrightarrow> a = b"
proof (induction a arbitrary: b)
  case Nil
  then show ?case by (cases b) auto
next
  case (Cons c a)
  then show ?case by (cases b) auto
qed

lemma required_config_space_free: "name \<in> set required_config \<Longrightarrow> CHR '' '' \<notin> set name"
  by (auto simp: required_config_def)

lemmas error_for_defs = type_error_for_def sign_error_for_def parity_error_for_def

lemma error_for_other_name:
  assumes "name \<in> set required_config" "m \<in> set required_config" "m \<noteq> name"
  shows "\<not> type_error_for name (m @ CHR '' '' # t)"
    "\<not> sign_error_for name (m @ CHR '' '' # t)"
    "\<not> parity_error_for name (m @ CHR '' '' # t)"
  using assms prefix_space_free [of name m _ t]
  by (auto simp: error_for_defs dest!: required_config_space_free)

lemma filter_int_nonneg_errors:
  assumes "name \<in> set required_config" "m \<in> set required_config"
  shows "filter (\<lambda>s. type_error_for name s \<or> sign_error_for name s) (int_nonneg_errors vars_out m)
           = (if m = name then int_nonneg_errors vars_out name else [])"
    and "filter (parity_error_for name) (int_nonneg_errors vars_out m) = []"
proof -
  show "filter (\<lambda>s. type_error_for name s \<or> sign_error_for name s) (int_nonneg_errors vars_out m)
           = (if m = name then int_nonneg_errors vars_out name else [])"
  proof (cases "m = name")
    case True
    then show ?thesis
      by (simp add: int_nonneg_errors_def error_for_defs split: option.split)
  next
    case False
    then show ?thesis
      by (simp add: int_nonneg_errors_def error_for_other_name [OF assms False] split: option.split)
  qed
  show "filter (parity_error_for name) (int_nonneg_errors vars_out m) = []"
  proof (cases "m = name")
    case True
    then show ?thesis
      by (simp add: int_nonneg_errors_def error_for_defs split: option.split)
  next
    case False
    then show ?thesis
      by (simp add: int_nonneg_errors_def error_for_other_name [OF assms False] split: option.split)
  qed
qed

lemma filter_even_errors:
  assumes "name \<in> set required_config" "m \<in> set required_config"
  shows "filter (\<lambda>s. type_error_for name s \<or> sign_error_for name s) (even_errors vars_out m) = []"
    and "filter (parity_error_for name) (even_errors vars_out m)
           = (if m = name then even_errors vars_out name else [])"
proof -
  show "filter (\<lambda>s. type_error_for name s \<or> sign_error_for name s) (even_errors vars_out m) = []"
  proof (cases "m = name")
    case True
    then show ?thesis
      by (simp add: even_errors_def error_for_defs split: option.split)
  next
    case False
    then show ?thesis
      by (simp add: even_errors_def error_for_other_name [OF assms False] split: option.split)
  qed
  show "filter (parity_error_for name) (even_errors vars_out m)
           = (if m = name then even_errors vars_out name else [])"
  proof (cases "m = name")
    case True
    then show ?thesis
      by (simp add: even_errors_def error_for_defs split: option.split)
  next
    case False
    then show ?thesis
      by (simp add: even_errors_def error_for_other_name [OF assms False] split: option.split)
  qed
qed


lemma filter_config_errors:
  assumes "name \<in> set required_config"
  shows "filter (\<lambda>s. type_error_for name s \<or> sign_error_for name s)
           (concat (map (int_nonneg_errors vars_out)
              [''r'', ''P'', ''d_a'', ''num_trainable_lora'', ''num_trainable_soft'',
               ''num_trainable_adapters'', ''num_trainable_ia3''])
            @ concat (map (even_errors vars_out) [''r'', ''P'', ''d_a'']))
         = int_nonneg_errors vars_out name"
    and "filter (parity_error_for name)
           (concat (map (int_nonneg_errors vars_out)
              [''r'', ''P'', ''d_a'', ''num_trainable_lora'', ''num_trainable_soft'',
               ''num_trainable_adapters'', ''num_trainable_ia3''])
            @ concat (map (even_errors vars_out) [''r'', ''P'', ''d_a'']))
         = (if name \<in> set [''r'', ''P'', ''d_a''] then even_errors vars_out name else [])"
proof -
  have req: "''r'' \<in> set required_config" "''P'' \<in> set required_config"
    "''d_a'' \<in> set required_config" "''num_trainable_lora'' \<in> set required_config"
    "''num_trainable_soft'' \<in> set required_config"
    "''num_trainable_adapters'' \<in> set required_config"
    "''num_trainable_ia3'' \<in> set required_config"
    by (simp_all add: required_config_def)
  note f = filter_int_nonneg_errors [OF assms] filter_even_errors [OF assms]
  have name: "name = ''r'' \<or> name = ''P'' \<or> name = ''d_a'' \<or> name = ''num_trainable_lora''
      \<or> name = ''num_trainable_soft'' \<or> name = ''num_trainable_adapters''
      \<or> name = ''num_trainable_ia3''"
    using assms by (auto simp: required_config_def)
  show "filter (\<lambda>s. type_error_for name s \<or> sign_error_for name s)
           (concat (map (int_nonneg_errors vars_out)
              [''r'', ''P'', ''d_a'', ''num_trainable_lora'', ''num_trainable_soft'',
               ''num_trainable_adapters'', ''num_trainable_ia3''])
            @ concat (map (even_errors vars_out) [''r'', ''P'', ''d_a'']))
         = int_nonneg_errors vars_out name"
    using name by (auto simp: f req)
  show "filter (parity_error_for name)
           (concat (map (int_nonneg_errors vars_out)
              [''r'', ''P'', ''d_a'', ''num_trainable_lora'', ''num_trainable_soft'',
               ''num_trainable_adapters'', ''num_trainable_ia3''])
            @ concat (map (even_errors vars_out) [''r'', ''P'', ''d_a'']))
         = (if name \<in> set [''r'', ''P'', ''d_a''] then even_errors vars_out name else [])"
    using name by (auto simp: f req)
qed

subsection \<open>One kind of error per variable\<close>

text \<open>
  C10. When all seven required variables are present, the config check returns a list
  in which, for each required variable, at most one message is a type error or a sign
  error for it; and when the variable's value is not an \<^verbatim>\<open>int\<close> instance (a float such
  as \<^verbatim>\<open>-3.5\<close>, say), the type error is the only such message and no parity error for
  the variable appears.
\<close>

theorem one_error_kind_per_variable:
  assumes "list_all (contains vars_out) required_config" "name \<in> set required_config"
  shows "\<exists>errors. check_peft_config_vars vars_out = Inr errors
     \<and> length (filter (\<lambda>s. type_error_for name s \<or> sign_error_for name s) errors) \<le> 1
     \<and> (\<forall>v. map_of vars_out name = Some v \<and> \<not> isinstance_int v \<longrightarrow>
           filter (\<lambda>s. type_error_for name s \<or> sign_error_for name s) errors
             = [name @ '' must be an integer (got '' @ type_name v @ '').'']
           \<and> filter (parity_error_for name) errors = [])"
proof -
  let ?errors = "concat (map (int_nonneg_errors vars_out)
              [''r'', ''P'', ''d_a'', ''num_trainable_lora'', ''num_trainable_soft'',
               ''num_trainable_adapters'', ''num_trainable_ia3''])
            @ concat (map (even_errors vars_out) [''r'', ''P'', ''d_a''])"
  have res: "check_peft_config_vars vars_out = Inr ?errors"
    by (rule check_peft_config_vars_present [OF assms(1)])
  have one: "length (int_nonneg_errors vars_out name) \<le> 1"
    by (simp add: int_nonneg_errors_def split: option.split)
  have nonint: "int_nonneg_errors vars_out name = [name @ '' must be an integer (got '' @ type_name v @ '').'']
      \<and> even_errors vars_out name = []"
    if "map_of vars_out name = Some v" "\<not> isinstance_int v" for v
    using that by (simp add: int_nonneg_errors_def even_errors_def)
  show ?thesis
    unfolding res
  proof (intro exI [of _ ?errors] conjI allI impI)
    show "Inr ?errors = (Inr ?errors :: pyexc + string list)" ..
    show "length (filter (\<lambda>s. type_error_for name s \<or> sign_error_for name s) ?errors) \<le> 1"
      by (simp only: filter_config_errors [OF assms(2)] one)
  next
    fix v
    assume v: "map_of vars_out name = Some v \<and> \<not> isinstance_int v"
    then have n: "int_nonneg_errors vars_out name
          = [name @ '' must be an integer (got '' @ type_name v @ '').'']"
      and e: "even_errors vars_out name = []"
      using nonint [of v] by simp_all
    show "filter (\<lambda>s. type_error_for name s \<or> sign_error_for name s) ?errors
          = [name @ '' must be an integer (got '' @ type_name v @ '').'']"
      by (simp only: filter_config_errors [OF assms(2)] n)
    show "filter (parity_error_for name) ?errors = []"
      by (simp only: filter_config_errors [OF assms(2)] e if_cancel)
  qed
qed


theorem one_error_kind_per_variable_witness:
  "list_all (contains
      [(''r'', PFloat 0xC00C000000000000), (''num_trainable_lora'', PInt 8), (''P'', PInt 2),
       (''num_trainable_soft'', PInt 16), (''d_a'', PInt 6),
       (''num_trainable_adapters'', PInt 12), (''num_trainable_ia3'', PInt 0)]) required_config
   \<and> ''r'' \<in> set required_config
   \<and> (\<exists>errors. check_peft_config_vars
      [(''r'', PFloat 0xC00C000000000000), (''num_trainable_lora'', PInt 8), (''P'', PInt 2),
       (''num_trainable_soft'', PInt 16), (''d_a'', PInt 6),
       (''num_trainable_adapters'', PInt 12), (''num_trainable_ia3'', PInt 0)] = Inr errors
     \<and> length (filter (\<lambda>s. type_error_for ''r'' s \<or> sign_error_for ''r'' s) errors) \<le> 1
     \<and> filter (\<lambda>s. type_error_for ''r'' s \<or> sign_error_for ''r'' s) errors
         = [''r must be an integer (got float).'']
     \<and> filter (parity_error_for ''r'') errors = [])"
  using one_error_kind_per_variable [of
      "[(''r'', PFloat 0xC00C000000000000), (''num_trainable_lora'', PInt 8), (''P'', PInt 2),
       (''num_trainable_soft'', PInt 16), (''d_a'', PInt 6),
       (''num_trainable_adapters'', PInt 12), (''num_trainable_ia3'', PInt 0)]" "''r''"]
  by (simp add: required_config_def contains_def)

subsection \<open>The loops of the shape checks\<close>

lemma check_vector_loop_ok:
  "(check_vector_loop rt i els = (True, [])) = (\<forall>el\<in>set els. is_numeric el)"
  by (induction els arbitrary: i) simp_all

lemma check_vector_loop_first:
  "k < length els \<Longrightarrow> \<not> is_numeric (els ! k) \<Longrightarrow> \<forall>j<k. is_numeric (els ! j) \<Longrightarrow>
   check_vector_loop rt i els =
     (False, ''Element at position '' @ str_int (int (i + k)) @ '' is not numeric: ''
             @ repr rt (els ! k))"
proof (induction els arbitrary: i k)
  case Nil
  then show ?case by simp
next
  case (Cons el els)
  show ?case
  proof (cases k)
    case 0
    with Cons.prems show ?thesis by simp
  next
    case (Suc k')
    with Cons.prems have "is_numeric el" by auto
    moreover have "k' < length els" "\<not> is_numeric (els ! k')" "\<forall>j<k'. is_numeric (els ! j)"
      using Cons.prems Suc by auto
    ultimately show ?thesis
      using Cons.IH [of k' "Suc i"] Suc by simp
  qed
qed

lemma check_vector_ok:
  "(check_vector rt v len = (True, [])) =
     (\<exists>els. v = PList els \<and> int (length els) = len \<and> (\<forall>el\<in>set els. is_numeric el))"
  by (cases v) (auto simp: check_vector_def check_vector_loop_ok)

lemma check_vector_shape:
  "\<forall>els. v = PList els \<longrightarrow> int (length els) \<noteq> len \<Longrightarrow>
   check_vector rt v len = (False, ''Expected a list of length '' @ str_int len @ ''.'')"
  by (cases v) (auto simp: check_vector_def)

lemma check_vector_first:
  "int (length els) = len \<Longrightarrow> k < length els \<Longrightarrow> \<not> is_numeric (els ! k) \<Longrightarrow>
   \<forall>j<k. is_numeric (els ! j) \<Longrightarrow>
   check_vector rt (PList els) len =
     (False, ''Element at position '' @ str_int (int k) @ '' is not numeric: '' @ repr rt (els ! k))"
  using check_vector_loop_first [of k els rt 0] by (simp add: check_vector_def)

lemma check_row_loop_none:
  "(check_row_loop rt r_idx c_idx els = None) = (\<forall>el\<in>set els. is_numeric el)"
  by (induction els arbitrary: c_idx) simp_all

lemma check_row_loop_first:
  "k < length els \<Longrightarrow> \<not> is_numeric (els ! k) \<Longrightarrow> \<forall>j<k. is_numeric (els ! j) \<Longrightarrow>
   check_row_loop rt r_idx c_idx els =
     Some (False, ''Non-numeric at ('' @ str_int (int r_idx) @ '','' @ str_int (int (c_idx + k))
                  @ ''): '' @ repr rt (els ! k))"
proof (induction els arbitrary: c_idx k)
  case Nil
  then show ?case by simp
next
  case (Cons el els)
  show ?case
  proof (cases k)
    case 0
    with Cons.prems show ?thesis by simp
  next
    case (Suc k')
    with Cons.prems have "is_numeric el" by auto
    moreover have "k' < length els" "\<not> is_numeric (els ! k')" "\<forall>j<k'. is_numeric (els ! j)"
      using Cons.prems Suc by auto
    ultimately show ?thesis
      using Cons.IH [of k' "Suc c_idx"] Suc by simp
  qed
qed

text \<open>A row the matrix check passes over: a list of the right length with numeric elements.\<close>

lemma check_matrix_loop_ok:
  "(check_matrix_loop rt cols r_idx rows = (True, [])) =
     (\<forall>row\<in>set rows. \<exists>els. row = PList els \<and> int (length els) = cols
                              \<and> (\<forall>el\<in>set els. is_numeric el))"
proof (induction rows arbitrary: r_idx)
  case Nil
  then show ?case by simp
next
  case (Cons row rows)
  show ?case
  proof (cases row)
    case (PList els)
    show ?thesis
    proof (cases "check_row_loop rt r_idx 0 els")
      case None
      then show ?thesis
        using PList Cons.IH [of "Suc r_idx"] check_row_loop_none [of rt r_idx 0 els] by auto
    next
      case (Some res)
      then have "\<not> (\<forall>el\<in>set els. is_numeric el)"
        using check_row_loop_none [of rt r_idx 0 els] by simp
      moreover have "res \<noteq> (True, [])"
      proof -
        from \<open>\<not> (\<forall>el\<in>set els. is_numeric el)\<close> have "\<exists>k. k < length els \<and> \<not> is_numeric (els ! k)"
          by (auto simp: in_set_conv_nth)
        then obtain k where k: "k < length els \<and> \<not> is_numeric (els ! k)"
          and least: "\<forall>j<k. \<not> (j < length els \<and> \<not> is_numeric (els ! j))"
          using exists_least_iff [of "\<lambda>k. k < length els \<and> \<not> is_numeric (els ! k)"] by auto
        have "\<forall>j<k. is_numeric (els ! j)" using least k by auto
        with k Some check_row_loop_first [of k els rt r_idx 0] show ?thesis by auto
      qed
      ultimately show ?thesis using PList Some by auto
    qed
  qed simp_all
qed


lemma check_matrix_loop_first:
  assumes "i < length rows"
    and "\<forall>i'<i. \<exists>els'. rows ! i' = PList els' \<and> int (length els') = cols
                         \<and> (\<forall>el\<in>set els'. is_numeric el)"
    and "rows ! i = PList els" "int (length els) = cols"
    and "k < length els" "\<not> is_numeric (els ! k)" "\<forall>j<k. is_numeric (els ! j)"
  shows "check_matrix_loop rt cols r_idx rows =
     (False, ''Non-numeric at ('' @ str_int (int (r_idx + i)) @ '','' @ str_int (int k)
             @ ''): '' @ repr rt (els ! k))"
  using assms(1-3)
proof (induction rows arbitrary: r_idx i)
  case Nil
  then show ?case by simp
next
  case (Cons row rows)
  show ?case
  proof (cases i)
    case 0
    with Cons.prems have "row = PList els" by simp
    then show ?thesis
      using 0 assms(4) check_row_loop_first [OF assms(5-7), of rt r_idx 0] by simp
  next
    case (Suc i')
    from Cons.prems(2) Suc obtain els' where row: "row = PList els'" "int (length els') = cols"
      "\<forall>el\<in>set els'. is_numeric el"
      by fastforce
    have none: "check_row_loop rt r_idx 0 els' = None"
      using row(3) by (simp add: check_row_loop_none)
    have "i' < length rows" using Cons.prems(1) Suc by simp
    moreover have "\<forall>j<i'. \<exists>els'. rows ! j = PList els' \<and> int (length els') = cols
                         \<and> (\<forall>el\<in>set els'. is_numeric el)"
      using Cons.prems(2) Suc by fastforce
    moreover have "rows ! i' = PList els" using Cons.prems(3) Suc by simp
    ultimately have "check_matrix_loop rt cols (Suc r_idx) rows =
       (False, ''Non-numeric at ('' @ str_int (int (Suc r_idx + i')) @ '','' @ str_int (int k)
             @ ''): '' @ repr rt (els ! k))"
      by (rule Cons.IH)
    then show ?thesis using row none Suc by simp
  qed
qed

lemma is_numeric_iff:
  "is_numeric v = ((\<exists>n. v = PInt n) \<or> (\<exists>b. v = PBool b) \<or> (\<exists>f. v = PFloat f))"
  by (cases v) (simp_all add: is_numeric_def)

lemma str_repr_x: "str_repr ''x'' = [CHR 0x27, CHR ''x'', CHR 0x27]"
  by (simp add: str_repr_def repr_quote_def str_escape_def printable_def Let_def)

subsection \<open>The vector check\<close>

text \<open>
  C8. For every value and length, the vector check returns true with an empty message
  exactly when the value is a list of that many elements, all numeric. A value that is
  not a list of that length gets the length message; a list of that length gets the
  message naming the zero-based index and the \<^verbatim>\<open>repr\<close> of its first non-numeric
  element. So \<^verbatim>\<open>b = [1, 2, 3]\<close> yields the length error and \<^verbatim>\<open>b = [1, "x", 3, 4]\<close>
  the non-numeric error for position 1, also through the \<^verbatim>\<open>b\<close> step of the data check.
\<close>

theorem check_vector_correct:
  "(check_vector rt v len = (True, [])
      \<longleftrightarrow> (\<exists>els. v = PList els \<and> int (length els) = len \<and> (\<forall>el\<in>set els. is_numeric el)))
   \<and> ((\<forall>els. v = PList els \<longrightarrow> int (length els) \<noteq> len) \<longrightarrow>
        check_vector rt v len = (False, ''Expected a list of length '' @ str_int len @ ''.''))
   \<and> (v = PList els \<and> int (length els) = len \<and> k < length els
        \<and> \<not> is_numeric (els ! k) \<and> (\<forall>j<k. is_numeric (els ! j)) \<longrightarrow>
        check_vector rt v len =
          (False, ''Element at position '' @ str_int (int k) @ '' is not numeric: ''
                  @ repr rt (els ! k)))
   \<and> check_vector rt (PList [PInt 1, PInt 2, PInt 3]) 4
        = (False, ''Expected a list of length 4.'')
   \<and> check_vector rt (PList [PInt 1, PStr ''x'', PInt 3, PInt 4]) 4
        = (False, ''Element at position 1 is not numeric: '' @ [CHR 0x27, CHR ''x'', CHR 0x27])
   \<and> (map_of vars_out ''b'' = Some (PList [PInt 1, PInt 2, PInt 3]) \<longrightarrow>
        check_b rt vars_out errors =
          Inr (errors @ [''b must be a numeric list of length 4: Expected a list of length 4.'']))
   \<and> (map_of vars_out ''b'' = Some (PList [PInt 1, PStr ''x'', PInt 3, PInt 4]) \<longrightarrow>
        check_b rt vars_out errors =
          Inr (errors @ [''b must be a numeric list of length 4: Element at position 1 is not numeric: ''
                         @ [CHR 0x27, CHR ''x'', CHR 0x27]]))"
proof -
  have ex1: "check_vector rt (PList [PInt 1, PInt 2, PInt 3]) 4
        = (False, ''Expected a list of length 4.'')"
    by (rule check_vector_eval)
  have ex2: "check_vector rt (PList [PInt 1, PStr ''x'', PInt 3, PInt 4]) 4
        = (False, ''Element at position 1 is not numeric: '' @ [CHR 0x27, CHR ''x'', CHR 0x27])"
    by (simp add: check_vector_def is_numeric_def str_int_digits str_repr_x)
  show ?thesis
    using check_vector_ok [of rt v len] check_vector_shape [of v len rt]
      check_vector_first [of els len k rt] ex1 ex2
    by (auto simp: check_b_def subscript_def simp del: append.simps)
qed


theorem check_vector_correct_witness:
  "check_vector sample_runtime (PList [PInt 1, PBool True, PFloat 0, PInt 4]) 4 = (True, [])
   \<and> check_vector sample_runtime (PTuple [PInt 1, PInt 2, PInt 3, PInt 4]) 4
       = (False, ''Expected a list of length 4.'')
   \<and> check_vector sample_runtime (PList [PInt 1, PFloat 0, PInt 3, PNone]) 4
       = (False, ''Element at position 3 is not numeric: None'')
   \<and> check_b sample_runtime [(''b'', PList [PInt 1, PInt 2, PInt 3])] []
       = Inr [''b must be a numeric list of length 4: Expected a list of length 4.'']
   \<and> check_b sample_runtime [(''b'', PList [PInt 1, PStr ''x'', PInt 3, PInt 4])] []
       = Inr [''b must be a numeric list of length 4: Element at position 1 is not numeric: ''
              @ [CHR 0x27, CHR ''x'', CHR 0x27]]"
  using check_vector_correct [of sample_runtime "PList [PInt 1, PBool True, PFloat 0, PInt 4]" 4
          "[]" 0 "[(''b'', PList [PInt 1, PInt 2, PInt 3])]" "[]"]
    check_vector_correct [of sample_runtime "PTuple [PInt 1, PInt 2, PInt 3, PInt 4]" 4
          "[]" 0 "[(''b'', PList [PInt 1, PStr ''x'', PInt 3, PInt 4])]" "[]"]
    check_vector_correct [of sample_runtime "PList [PInt 1, PFloat 0, PInt 3, PNone]" 4
          "[PInt 1, PFloat 0, PInt 3, PNone]" 3 "[]" "[]"]
  by (simp add: is_numeric_def str_int_digits less_Suc_eq numeral_3_eq_3)

subsection \<open>Booleans\<close>

text \<open>
  C1, as the claim states it, does not hold: a boolean is an instance of \<^verbatim>\<open>int\<close>, so
  \<^verbatim>\<open>is_numeric(True)\<close> is true, and a 2x4 \<^verbatim>\<open>Wprime\<close> with a \<^verbatim>\<open>True\<close> element passes the
  matrix check and the whole data check.
\<close>

theorem boolean_accepted_counterexample:
  "is_numeric (PBool True)
   \<and> check_matrix sample_runtime
        (PList [PList [PBool True, PInt 2, PInt 3, PInt 4],
                PList [PInt 5, PInt 6, PInt 7, PInt 8]]) 2 4 = (True, [])
   \<and> check_peft_vars sample_runtime
        [(''b'', PList [PInt 1, PInt 2, PInt 3, PInt 4]),
         (''A'', PList [PList [PInt 1], PList [PInt 2]]),
         (''B'', PList [PList [PInt 1, PInt 2, PInt 3, PInt 4]]),
         (''Wprime'', PList [PList [PBool True, PInt 2, PInt 3, PInt 4],
                             PList [PInt 5, PInt 6, PInt 7, PInt 8]])] = Inr []"
proof -
  have "check_peft_vars sample_runtime
        [(''b'', PList [PInt 1, PInt 2, PInt 3, PInt 4]),
         (''A'', PList [PList [PInt 1], PList [PInt 2]]),
         (''B'', PList [PList [PInt 1, PInt 2, PInt 3, PInt 4]]),
         (''Wprime'', PList [PList [PBool True, PInt 2, PInt 3, PInt 4],
                             PList [PInt 5, PInt 6, PInt 7, PInt 8]])] = Inr []"
    by (subst check_peft_vars_present
          [where b = "PList [PInt 1, PInt 2, PInt 3, PInt 4]"
             and A = "PList [PList [PInt 1], PList [PInt 2]]"
             and B = "PList [PList [PInt 1, PInt 2, PInt 3, PInt 4]]"
             and W = "PList [PList [PBool True, PInt 2, PInt 3, PInt 4],
                             PList [PInt 5, PInt 6, PInt 7, PInt 8]]"])
       (simp_all add: check_vector_eval check_matrix_eval)
  then show ?thesis
    by (simp add: is_numeric_def check_matrix_eval)
qed

text \<open>
  C1, amended. An element counts as numeric exactly when it is an \<^verbatim>\<open>int\<close>, a \<^verbatim>\<open>bool\<close> or
  a \<^verbatim>\<open>float\<close>. For every matrix (or vector) argument of the right shape, the check
  reports the first element that is none of these as non-numeric, with its position and
  \<^verbatim>\<open>repr\<close>; a matrix of the right shape whose elements are all of these kinds is
  accepted, in particular a 2x4 \<^verbatim>\<open>Wprime\<close> with a \<^verbatim>\<open>True\<close> element.
\<close>

theorem booleans_count_as_numeric:
  "(is_numeric v \<longleftrightarrow> (\<exists>n. v = PInt n) \<or> (\<exists>b. v = PBool b) \<or> (\<exists>f. v = PFloat f))
   \<and> (int (length rows) = nrows \<and> i < length rows
        \<and> (\<forall>i'<i. \<exists>els'. rows ! i' = PList els' \<and> int (length els') = cols
                          \<and> (\<forall>el\<in>set els'. is_numeric el))
        \<and> rows ! i = PList els \<and> int (length els) = cols
        \<and> k < length els \<and> \<not> is_numeric (els ! k) \<and> (\<forall>j<k. is_numeric (els ! j)) \<longrightarrow>
        check_matrix rt (PList rows) nrows cols =
          (False, ''Non-numeric at ('' @ str_int (int i) @ '','' @ str_int (int k) @ ''): ''
                  @ repr rt (els ! k)))
   \<and> (int (length els) = len \<and> k < length els
        \<and> \<not> is_numeric (els ! k) \<and> (\<forall>j<k. is_numeric (els ! j)) \<longrightarrow>
        check_vector rt (PList els) len =
          (False, ''Element at position '' @ str_int (int k) @ '' is not numeric: ''
                  @ repr rt (els ! k)))
   \<and> (int (length rows) = nrows
        \<and> (\<forall>row\<in>set rows. \<exists>els'. row = PList els' \<and> int (length els') = cols
                                 \<and> (\<forall>el\<in>set els'. is_numeric el)) \<longrightarrow>
        check_matrix rt (PList rows) nrows cols = (True, []))
   \<and> check_matrix rt
        (PList [PList [PBool True, PInt 2, PInt 3, PInt 4],
                PList [PInt 5, PInt 6, PInt 7, PInt 8]]) 2 4 = (True, [])"
proof (intro conjI impI)
  show "is_numeric v \<longleftrightarrow> (\<exists>n. v = PInt n) \<or> (\<exists>b. v = PBool b) \<or> (\<exists>f. v = PFloat f)"
    by (rule is_numeric_iff)
next
  assume a: "int (length rows) = nrows \<and> i < length rows
        \<and> (\<forall>i'<i. \<exists>els'. rows ! i' = PList els' \<and> int (length els') = cols
                          \<and> (\<forall>el\<in>set els'. is_numeric el))
        \<and> rows ! i = PList els \<and> int (length els) = cols
        \<and> k < length els \<and> \<not> is_numeric (els ! k) \<and> (\<forall>j<k. is_numeric (els ! j))"
  then have "check_matrix_loop rt cols 0 rows =
     (False, ''Non-numeric at ('' @ str_int (int (0 + i)) @ '','' @ str_int (int k)
             @ ''): '' @ repr rt (els ! k))"
    by (intro check_matrix_loop_first) simp_all
  with a show "check_matrix rt (PList rows) nrows cols =
          (False, ''Non-numeric at ('' @ str_int (int i) @ '','' @ str_int (int k) @ ''): ''
                  @ repr rt (els ! k))"
    by (simp add: check_matrix_def)
next
  assume "int (length els) = len \<and> k < length els
        \<and> \<not> is_numeric (els ! k) \<and> (\<forall>j<k. is_numeric (els ! j))"
  then show "check_vector rt (PList els) len =
          (False, ''Element at position '' @ str_int (int k) @ '' is not numeric: ''
                  @ repr rt (els ! k))"
    using check_vector_first [of els len k rt] by simp
next
  assume "int (length rows) = nrows
        \<and> (\<forall>row\<in>set rows. \<exists>els'. row = PList els' \<and> int (length els') = cols
                                 \<and> (\<forall>el\<in>set els'. is_numeric el))"
  then show "check_matrix rt (PList rows) nrows cols = (True, [])"
    using check_matrix_loop_ok [of rt cols 0 rows] by (simp add: check_matrix_def)
next
  show "check_matrix rt
        (PList [PList [PBool True, PInt 2, PInt 3, PInt 4],
                PList [PInt 5, PInt 6, PInt 7, PInt 8]]) 2 4 = (True, [])"
    by (rule check_matrix_eval)
qed

theorem booleans_count_as_numeric_witness:
  "check_matrix sample_runtime
     (PList [PList [PBool True, PInt 2, PInt 3, PInt 4],
             PList [PInt 5, PNone, PInt 7, PStr ''x'']]) 2 4
     = (False, ''Non-numeric at (1,1): None'')
   \<and> check_vector sample_runtime (PList [PBool False, PNone, PInt 3]) 3
     = (False, ''Element at position 1 is not numeric: None'')
   \<and> check_matrix sample_runtime
     (PList [PList [PBool True, PInt 2, PInt 3, PInt 4],
             PList [PInt 5, PFloat 0, PInt 7, PBool False]]) 2 4 = (True, [])"
  using booleans_count_as_numeric [of PNone
          "[PList [PBool True, PInt 2, PInt 3, PInt 4], PList [PInt 5, PNone, PInt 7, PStr ''x'']]"
          2 1 4 "[PInt 5, PNone, PInt 7, PStr ''x'']" 1 sample_runtime 4]
    booleans_count_as_numeric [of PNone
          "[PList [PBool True, PInt 2, PInt 3, PInt 4], PList [PInt 5, PFloat 0, PInt 7, PBool False]]"
          2 0 4 "[PBool False, PNone, PInt 3]" 1 sample_runtime 3]
  by (simp add: is_numeric_def str_int_digits)

subsection \<open>The reading loop\<close>

lemma name_assign_Some: "(name_assign s = Some (n, e)) = (s = Assign [Name n] e)"
  by (induction s rule: name_assign.induct) auto

lemma collect_assignments_step:
  "collect_assignments rt out (node # rest) =
     (case name_assign node of
        None \<Rightarrow> collect_assignments rt out rest
      | Some (name, val) \<Rightarrow>
          (case literal_eval rt val of
             Inl e \<Rightarrow> ([], Some (''Could not parse value for '' @ name @ '': '' @ exc_text rt e))
           | Inr v \<Rightarrow> collect_assignments rt (AList.update name v out) rest))"
  by (induction node rule: name_assign.induct) simp_all

lemma collect_assignments_skip:
  "name_assign s = None \<Longrightarrow>
   collect_assignments rt out (pre @ s # post) = collect_assignments rt out (pre @ post)"
proof (induction pre arbitrary: out)
  case Nil
  then show ?case by (simp only: append_Nil collect_assignments_step option.case)
next
  case (Cons node pre)
  then show ?case
    by (simp only: append_Cons collect_assignments_step split: option.split sum.split prod.split)
qed

lemma collect_assignments_fail:
  assumes "\<forall>n e. Assign [Name n] e \<in> set pre \<longrightarrow> (\<exists>v. literal_eval rt e = Inr v)"
    and "literal_eval rt val = Inl ex"
  shows "collect_assignments rt out (pre @ Assign [Name name] val # post) =
     ([], Some (''Could not parse value for '' @ name @ '': '' @ exc_text rt ex))"
  using assms(1)
proof (induction pre arbitrary: out)
  case Nil
  show ?case using assms(2) by simp
next
  case (Cons node pre)
  have rest: "\<forall>n e. Assign [Name n] e \<in> set pre \<longrightarrow> (\<exists>v. literal_eval rt e = Inr v)"
    using Cons.prems by auto
  show ?case
  proof (cases "name_assign node")
    case None
    then show ?thesis
      using Cons.IH [OF rest] by (simp only: append_Cons collect_assignments_step option.case)
  next
    case (Some ne)
    obtain n e where ne: "ne = (n, e)" by (cases ne)
    with Some have "node = Assign [Name n] e" by (simp add: name_assign_Some)
    with Cons.prems obtain v where "literal_eval rt e = Inr v" by auto
    then show ?thesis
      using Some ne Cons.IH [OF rest]
      by (simp only: append_Cons collect_assignments_step option.case prod.case sum.case)
  qed
qed

lemma collect_assignments_ok:
  assumes "\<forall>n e. Assign [Name n] e \<in> set body \<longrightarrow> (\<exists>v. literal_eval rt e = Inr v)"
  shows "collect_assignments rt out body =
     (foldl (\<lambda>acc (n, v). AList.update n v acc) out (evaluated rt body), None)"
  using assms
proof (induction body arbitrary: out)
  case Nil
  then show ?case by simp
next
  case (Cons node body)
  have rest: "\<forall>n e. Assign [Name n] e \<in> set body \<longrightarrow> (\<exists>v. literal_eval rt e = Inr v)"
    using Cons.prems by auto
  show ?case
  proof (cases "name_assign node")
    case None
    then show ?thesis
      using Cons.IH [OF rest] by (simp add: collect_assignments_step del: collect_assignments.simps)
  next
    case (Some ne)
    obtain n e where ne: "ne = (n, e)" by (cases ne)
    with Some have "node = Assign [Name n] e" by (simp add: name_assign_Some)
    with Cons.prems obtain v where "literal_eval rt e = Inr v" by auto
    then show ?thesis
      using Some ne Cons.IH [OF rest]
      by (simp add: collect_assignments_step del: collect_assignments.simps)
  qed
qed

lemma collect_assignments_error_iff:
  "(snd (collect_assignments rt out body) = None) =
     (\<forall>n e. Assign [Name n] e \<in> set body \<longrightarrow> (\<exists>v. literal_eval rt e = Inr v))"
proof
  assume ok: "\<forall>n e. Assign [Name n] e \<in> set body \<longrightarrow> (\<exists>v. literal_eval rt e = Inr v)"
  then show "snd (collect_assignments rt out body) = None"
    by (simp add: collect_assignments_ok)
next
  assume none: "snd (collect_assignments rt out body) = None"
  show "\<forall>n e. Assign [Name n] e \<in> set body \<longrightarrow> (\<exists>v. literal_eval rt e = Inr v)"
  proof (rule ccontr)
    define failing where
      "failing s \<longleftrightarrow> (\<exists>n e ex. s = Assign [Name n] e \<and> literal_eval rt e = Inl ex)" for s
    assume "\<not> (\<forall>n e. Assign [Name n] e \<in> set body \<longrightarrow> (\<exists>v. literal_eval rt e = Inr v))"
    then obtain n0 e0 where "Assign [Name n0] e0 \<in> set body" "\<forall>v. literal_eval rt e0 \<noteq> Inr v"
      by blast
    moreover from this(2) obtain ex0 where "literal_eval rt e0 = Inl ex0"
      by (cases "literal_eval rt e0") auto
    ultimately have "\<exists>s\<in>set body. failing s"
      unfolding failing_def by blast
    then obtain pre s post where split: "body = pre @ s # post"
      and s: "failing s" and first: "\<forall>y\<in>set pre. \<not> failing y"
      using split_list_first_prop [of body failing] by blast
    from s obtain n e ex where s': "s = Assign [Name n] e" "literal_eval rt e = Inl ex"
      unfolding failing_def by blast
    have "\<forall>n e. Assign [Name n] e \<in> set pre \<longrightarrow> (\<exists>v. literal_eval rt e = Inr v)"
    proof (intro allI impI)
      fix n' e'
      assume "Assign [Name n'] e' \<in> set pre"
      with first have "\<not> failing (Assign [Name n'] e')" by blast
      then have "\<forall>ex. literal_eval rt e' \<noteq> Inl ex" unfolding failing_def by blast
      then show "\<exists>v. literal_eval rt e' = Inr v" by (cases "literal_eval rt e'") auto
    qed
    then have "collect_assignments rt out body =
       ([], Some (''Could not parse value for '' @ n @ '': '' @ exc_text rt ex))"
      unfolding split s'(1) using s'(2) by (rule collect_assignments_fail)
    with none show False by simp
  qed
qed

subsection \<open>Right-hand sides that are not literals\<close>

lemma literal_eval_examples:
  "literal_eval rt (BinOp (Constant (PInt 1)) Add (Constant (PInt 1)))
     = Inl (MalformedNode (Some (BinOp (Constant (PInt 1)) Add (Constant (PInt 1)))))"
  "literal_eval rt (Name x) = Inl (MalformedNode (Some (Name x)))"
  "func \<noteq> Name ''set'' \<or> args \<noteq> [] \<or> keywords \<noteq> [] \<Longrightarrow>
     literal_eval rt (Call func args keywords) = Inl (MalformedNode (Some (Call func args keywords)))"
  by auto

text \<open>
  C3. When the body of a file contains an assignment to a single name whose right-hand
  side \<^verbatim>\<open>ast.literal_eval\<close> cannot evaluate, reading fails for the whole file: the
  result is the empty dict together with one diagnostic that names the variable of such
  an assignment, namely the first one in the file. The right-hand sides \<^verbatim>\<open>1 + 1\<close>, a
  name reference and a call (other than the bare \<^verbatim>\<open>set()\<close>) are of this kind.
\<close>

theorem literal_eval_error_fails_whole_file:
  "(Assign [Name name] val \<in> set body \<and> literal_eval rt val = Inl ex \<longrightarrow>
      (\<exists>n e ex'. Assign [Name n] e \<in> set body \<and> literal_eval rt e = Inl ex'
         \<and> read_assignments_multiline rt path (Module body) =
             ([], Some (''Could not parse value for '' @ n @ '': '' @ exc_text rt ex'))))
   \<and> (body = pre @ Assign [Name name] val # post
        \<and> (\<forall>n e. Assign [Name n] e \<in> set pre \<longrightarrow> (\<exists>v. literal_eval rt e = Inr v))
        \<and> literal_eval rt val = Inl ex \<longrightarrow>
      read_assignments_multiline rt path (Module body) =
        ([], Some (''Could not parse value for '' @ name @ '': '' @ exc_text rt ex)))
   \<and> literal_eval rt (BinOp (Constant (PInt 1)) Add (Constant (PInt 1)))
        = Inl (MalformedNode (Some (BinOp (Constant (PInt 1)) Add (Constant (PInt 1)))))
   \<and> literal_eval rt (Name x) = Inl (MalformedNode (Some (Name x)))
   \<and> (func \<noteq> Name ''set'' \<or> args \<noteq> [] \<or> keywords \<noteq> [] \<longrightarrow>
        literal_eval rt (Call func args keywords)
          = Inl (MalformedNode (Some (Call func args keywords))))"
proof (intro conjI impI)
  assume a: "Assign [Name name] val \<in> set body \<and> literal_eval rt val = Inl ex"
  define failing where
    "failing s \<longleftrightarrow> (\<exists>n e ex. s = Assign [Name n] e \<and> literal_eval rt e = Inl ex)" for s
  from a have "\<exists>s\<in>set body. failing s"
    unfolding failing_def by blast
  then obtain pre' s post' where split: "body = pre' @ s # post'"
    and s: "failing s" and first: "\<forall>y\<in>set pre'. \<not> failing y"
    using split_list_first_prop [of body failing] by blast
  from s obtain n e ex' where s': "s = Assign [Name n] e" "literal_eval rt e = Inl ex'"
    unfolding failing_def by blast
  have "\<forall>n e. Assign [Name n] e \<in> set pre' \<longrightarrow> (\<exists>v. literal_eval rt e = Inr v)"
  proof (intro allI impI)
    fix n' e'
    assume "Assign [Name n'] e' \<in> set pre'"
    with first have "\<not> failing (Assign [Name n'] e')" by blast
    then have "\<forall>ex. literal_eval rt e' \<noteq> Inl ex" unfolding failing_def by blast
    then show "\<exists>v. literal_eval rt e' = Inr v" by (cases "literal_eval rt e'") auto
  qed
  then have "collect_assignments rt [] body =
       ([], Some (''Could not parse value for '' @ n @ '': '' @ exc_text rt ex'))"
    unfolding split s'(1) using s'(2) by (rule collect_assignments_fail)
  moreover have "Assign [Name n] e \<in> set body" using split s'(1) by simp
  ultimately show "\<exists>n e ex'. Assign [Name n] e \<in> set body \<and> literal_eval rt e = Inl ex'
         \<and> read_assignments_multiline rt path (Module body) =
             ([], Some (''Could not parse value for '' @ n @ '': '' @ exc_text rt ex'))"
    using s'(2) unfolding read_assignments_multiline_def by (intro exI [of _ n] exI [of _ e] exI [of _ ex']) simp
next
  assume a: "body = pre @ Assign [Name name] val # post
        \<and> (\<forall>n e. Assign [Name n] e \<in> set pre \<longrightarrow> (\<exists>v. literal_eval rt e = Inr v))
        \<and> literal_eval rt val = Inl ex"
  then have "collect_assignments rt [] (pre @ Assign [Name name] val # post) =
       ([], Some (''Could not parse value for '' @ name @ '': '' @ exc_text rt ex))"
    by (intro collect_assignments_fail) simp_all
  with a show "read_assignments_multiline rt path (Module body) =
        ([], Some (''Could not parse value for '' @ name @ '': '' @ exc_text rt ex))"
    by (simp add: read_assignments_multiline_def)
next
  show "literal_eval rt (BinOp (Constant (PInt 1)) Add (Constant (PInt 1)))
        = Inl (MalformedNode (Some (BinOp (Constant (PInt 1)) Add (Constant (PInt 1)))))"
    by (rule literal_eval_examples)
  show "literal_eval rt (Name x) = Inl (MalformedNode (Some (Name x)))"
    by (rule literal_eval_examples)
next
  assume "func \<noteq> Name ''set'' \<or> args \<noteq> [] \<or> keywords \<noteq> []"
  then show "literal_eval rt (Call func args keywords)
          = Inl (MalformedNode (Some (Call func args keywords)))"
    by (rule literal_eval_examples)
qed


theorem literal_eval_error_fails_whole_file_witness:
  "read_assignments_multiline sample_runtime ''peft_config.txt''
     (Module [Assign [Name ''P''] (Constant (PInt 2)),
              Assign [Name ''r''] (BinOp (Constant (PInt 1)) Add (Constant (PInt 1))),
              Assign [Name ''d_a''] (Name ''P'')])
   = ([], Some ''Could not parse value for r: error'')"
  using literal_eval_error_fails_whole_file [of "''r''"
      "BinOp (Constant (PInt 1)) Add (Constant (PInt 1))"
      "[Assign [Name ''P''] (Constant (PInt 2)),
        Assign [Name ''r''] (BinOp (Constant (PInt 1)) Add (Constant (PInt 1))),
        Assign [Name ''d_a''] (Name ''P'')]"
      sample_runtime
      "MalformedNode (Some (BinOp (Constant (PInt 1)) Add (Constant (PInt 1))))"
      "''peft_config.txt''"
      "[Assign [Name ''P''] (Constant (PInt 2))]"
      "[Assign [Name ''d_a''] (Name ''P'')]"
      "''P''" "Name ''float''" "[Constant (PInt 1)]" "[]"]
  by (simp add: sample_runtime_def)

subsection \<open>The dict that reading builds\<close>

lemma map_of_foldl_update:
  "map_of (foldl (\<lambda>acc (n, v). AList.update n v acc) out kvs) = map_of out ++ map_of (rev kvs)"
proof (induction kvs arbitrary: out)
  case Nil
  then show ?case by simp
next
  case (Cons kv kvs)
  obtain n v where kv: "kv = (n, v)" by (cases kv)
  show ?case
    unfolding kv by (simp add: Cons.IH update_conv' map_add_upd_left ext)
        (auto simp: map_add_def fun_eq_iff split: option.split)
qed

lemma keys_foldl_update:
  "map fst (foldl (\<lambda>acc (n, v). AList.update n v acc) [] kvs) = rev (remdups (rev (map fst kvs)))"
proof (induction kvs rule: rev_induct)
  case Nil
  then show ?case by simp
next
  case (snoc kv kvs)
  obtain n v where kv: "kv = (n, v)" by (cases kv)
  have "set (map fst (foldl (\<lambda>acc (n, v). AList.update n v acc) [] kvs)) = set (map fst kvs)"
    by (simp only: snoc.IH set_rev set_remdups)
  then show ?case
    unfolding kv using snoc.IH by (simp add: update_keys)
qed

lemma read_assignments_multiline_ok:
  assumes "snd (read_assignments_multiline rt path (Module body)) = None"
  shows "read_assignments_multiline rt path (Module body) =
     (foldl (\<lambda>acc (n, v). AList.update n v acc) [] (evaluated rt body), None)"
proof -
  from assms have "\<forall>n e. Assign [Name n] e \<in> set body \<longrightarrow> (\<exists>v. literal_eval rt e = Inr v)"
    by (simp add: read_assignments_multiline_def collect_assignments_error_iff)
  then show ?thesis
    by (simp add: read_assignments_multiline_def collect_assignments_ok)
qed

lemma read_assignments_multiline_skip:
  "\<forall>n e. s \<noteq> Assign [Name n] e \<Longrightarrow>
   read_assignments_multiline rt path (Module (pre @ s # post)) =
   read_assignments_multiline rt path (Module (pre @ post))"
proof -
  assume "\<forall>n e. s \<noteq> Assign [Name n] e"
  then have "name_assign s = None"
    by (cases "name_assign s") (auto simp: name_assign_Some)
  then show ?thesis
    by (simp add: read_assignments_multiline_def collect_assignments_skip)
qed

lemma evaluated_mem:
  "Assign [Name n] e \<in> set body \<Longrightarrow> literal_eval rt e = Inr v \<Longrightarrow>
   (n, v) \<in> set (evaluated rt body)"
  by (induction body) (auto split: option.split sum.split)

lemma collect_assignments_error_empty:
  "snd (collect_assignments rt out body) \<noteq> None \<Longrightarrow> fst (collect_assignments rt out body) = []"
proof (induction body arbitrary: out)
  case Nil
  then show ?case by simp
next
  case (Cons node body)
  then show ?case
    by (simp only: collect_assignments_step split: option.splits sum.splits prod.splits)
       (auto split: option.splits sum.splits prod.splits)
qed

subsection \<open>Entries of the assignment map\<close>

text \<open>
  C9. When reading returns without an error, the dict holds one entry per name assigned
  by the evaluated top-level single-name assignments: its keys are their names in the
  order of first assignment, and each name is bound to the value of its last assignment.
  A top-level statement of any other kind (an expression statement such as a call, an
  import, a conditional, an assignment with several targets or with an attribute,
  subscript or tuple target) changes nothing: the result is the same with and without it.
\<close>

theorem assignments_last_write_wins:
  "(snd (read_assignments_multiline rt path (Module body)) = None \<longrightarrow>
      map fst (fst (read_assignments_multiline rt path (Module body)))
        = rev (remdups (rev (map fst (evaluated rt body))))
      \<and> map_of (fst (read_assignments_multiline rt path (Module body)))
        = map_of (rev (evaluated rt body)))
   \<and> ((\<forall>n e. s \<noteq> Assign [Name n] e) \<longrightarrow>
        read_assignments_multiline rt path (Module (pre @ s # post)) =
        read_assignments_multiline rt path (Module (pre @ post)))
   \<and> (s = Expr e \<or> s = Import names \<or> s = If c thn els \<or> s = Assign (t1 # t2 # ts) val
        \<or> s = Assign [Attribute obj attr] val \<or> s = Assign [Subscript obj idx] val
        \<or> s = Assign [Tuple ts] val \<longrightarrow>
        read_assignments_multiline rt path (Module (pre @ s # post)) =
        read_assignments_multiline rt path (Module (pre @ post)))"
proof (intro conjI impI)
  assume ok: "snd (read_assignments_multiline rt path (Module body)) = None"
  show "map fst (fst (read_assignments_multiline rt path (Module body)))
        = rev (remdups (rev (map fst (evaluated rt body))))"
    by (simp add: read_assignments_multiline_ok [OF ok] keys_foldl_update)
  show "map_of (fst (read_assignments_multiline rt path (Module body)))
        = map_of (rev (evaluated rt body))"
    by (simp add: read_assignments_multiline_ok [OF ok] map_of_foldl_update)
next
  assume "\<forall>n e. s \<noteq> Assign [Name n] e"
  then show "read_assignments_multiline rt path (Module (pre @ s # post)) =
        read_assignments_multiline rt path (Module (pre @ post))"
    by (rule read_assignments_multiline_skip)
next
  assume "s = Expr e \<or> s = Import names \<or> s = If c thn els \<or> s = Assign (t1 # t2 # ts) val
        \<or> s = Assign [Attribute obj attr] val \<or> s = Assign [Subscript obj idx] val
        \<or> s = Assign [Tuple ts] val"
  then have "\<forall>n e. s \<noteq> Assign [Name n] e" by auto
  then show "read_assignments_multiline rt path (Module (pre @ s # post)) =
        read_assignments_multiline rt path (Module (pre @ post))"
    by (rule read_assignments_multiline_skip)
qed


theorem assignments_last_write_wins_witness:
  "snd (read_assignments_multiline sample_runtime ''peft.txt''
     (Module [Assign [Name ''b''] (List [Constant (PInt 1), Constant (PInt 2)]),
              Expr (Call (Name ''print'') [Name ''b''] []),
              Assign [Name ''A''] (Constant (PInt 1)),
              Assign [Name ''b''] (Constant (PInt 3))])) = None
   \<and> map fst (fst (read_assignments_multiline sample_runtime ''peft.txt''
     (Module [Assign [Name ''b''] (List [Constant (PInt 1), Constant (PInt 2)]),
              Expr (Call (Name ''print'') [Name ''b''] []),
              Assign [Name ''A''] (Constant (PInt 1)),
              Assign [Name ''b''] (Constant (PInt 3))]))) = [''b'', ''A'']
   \<and> map_of (fst (read_assignments_multiline sample_runtime ''peft.txt''
     (Module [Assign [Name ''b''] (List [Constant (PInt 1), Constant (PInt 2)]),
              Expr (Call (Name ''print'') [Name ''b''] []),
              Assign [Name ''A''] (Constant (PInt 1)),
              Assign [Name ''b''] (Constant (PInt 3))]))) ''b'' = Some (PInt 3)
   \<and> read_assignments_multiline sample_runtime ''peft.txt''
     (Module [Assign [Name ''b''] (List [Constant (PInt 1), Constant (PInt 2)]),
              Expr (Call (Name ''print'') [Name ''b''] []),
              Assign [Name ''A''] (Constant (PInt 1)),
              Assign [Name ''b''] (Constant (PInt 3))])
     = read_assignments_multiline sample_runtime ''peft.txt''
     (Module [Assign [Name ''b''] (List [Constant (PInt 1), Constant (PInt 2)]),
              Assign [Name ''A''] (Constant (PInt 1)),
              Assign [Name ''b''] (Constant (PInt 3))])"
  using assignments_last_write_wins [of sample_runtime "''peft.txt''"
     "[Assign [Name ''b''] (List [Constant (PInt 1), Constant (PInt 2)]),
       Expr (Call (Name ''print'') [Name ''b''] []),
       Assign [Name ''A''] (Constant (PInt 1)),
       Assign [Name ''b''] (Constant (PInt 3))]"
     "Expr (Call (Name ''print'') [Name ''b''] [])"
     "[Assign [Name ''b''] (List [Constant (PInt 1), Constant (PInt 2)])]"
     "[Assign [Name ''A''] (Constant (PInt 1)), Assign [Name ''b''] (Constant (PInt 3))]"
     "Call (Name ''print'') [Name ''b''] []"]
  by (simp add: read_assignments_multiline_def)

subsection \<open>The value bound to a name\<close>

lemma evaluated_append: "evaluated rt (xs @ ys) = evaluated rt xs @ evaluated rt ys"
  by (induction xs) (simp_all split: option.split sum.split prod.split)

lemma evaluated_keys:
  "(n, v) \<in> set (evaluated rt body) \<Longrightarrow> \<exists>e. Assign [Name n] e \<in> set body"
proof (induction body)
  case Nil
  then show ?case by simp
next
  case (Cons node body)
  show ?case
  proof (cases "name_assign node")
    case None
    with Cons show ?thesis by auto
  next
    case (Some ne)
    obtain n' e' where ne: "ne = (n', e')" by (cases ne)
    with Some have node: "node = Assign [Name n'] e'" by (simp add: name_assign_Some)
    from Cons.prems Some ne have "(n, v) \<in> set (evaluated rt body) \<or> n = n'"
      by (auto split: sum.splits)
    with Cons.IH node show ?thesis by auto
  qed
qed

lemma read_assignments_multiline_last:
  assumes ok: "snd (read_assignments_multiline rt path (Module (pre @ Assign [Name n] e # post))) = None"
    and later: "\<forall>e'. Assign [Name n] e' \<notin> set post"
    and v: "literal_eval rt e = Inr v"
  shows "map_of (fst (read_assignments_multiline rt path (Module (pre @ Assign [Name n] e # post)))) n
           = Some v"
proof -
  have "n \<notin> fst ` set (evaluated rt post)"
    using later evaluated_keys [of n _ rt post] by force
  then have none: "map_of (rev (evaluated rt post)) n = None"
    by (simp add: map_of_eq_None_iff)
  have "evaluated rt (pre @ Assign [Name n] e # post)
          = evaluated rt pre @ (n, v) # evaluated rt post"
    using v by (simp add: evaluated_append)
  then have "map_of (rev (evaluated rt (pre @ Assign [Name n] e # post))) n = Some v"
    using none by (simp add: map_add_def)
  then show ?thesis
    by (simp add: read_assignments_multiline_ok [OF ok] map_of_foldl_update)
qed

subsection \<open>Literals other than numbers and lists\<close>

text \<open>
  C2, as the claim states it, does not hold: assignments of a string, a boolean, a dict
  and a set literal all appear as entries of the dict that reading returns.
\<close>

theorem boolean_and_string_entries_counterexample:
  "read_assignments_multiline sample_runtime ''peft.txt''
     (Module [Assign [Name ''x''] (Constant (PStr ''hello'')),
              Assign [Name ''flag''] (Constant (PBool True)),
              Assign [Name ''d''] (Dict [Some (Constant (PStr ''a''))] [Constant (PInt 1)]),
              Assign [Name ''s''] (Set [Constant (PInt 1)])])
   = ([(''x'', PStr ''hello''), (''flag'', PBool True), (''d'', PDict [(PStr ''a'', PInt 1)]),
       (''s'', PSet [PInt 1])], None)"
  by (simp add: read_assignments_multiline_def)

text \<open>
  C2, amended. Reading a file returns without error exactly when \<^verbatim>\<open>ast.literal_eval\<close>
  evaluates the right-hand side of every top-level assignment to a single name; an
  assignment is rejected exactly when \<^verbatim>\<open>ast.literal_eval\<close> raises on its right-hand
  side, and then the dict is empty and an error is returned. Every constant (a string,
  bytes, boolean, \<^verbatim>\<open>None\<close> as well as a number) is evaluated to itself, and so are
  tuples, sets and dicts of constants. When reading returns without error, the name of
  every single-name assignment is a key of the dict, bound to the value of the last
  assignment to that name; so \<^verbatim>\<open>x = "hello"\<close> alone is read as the entry
  \<^verbatim>\<open>x\<close> bound to that string.
\<close>

theorem any_literal_is_accepted:
  "literal_eval rt (Constant c) = Inr c
   \<and> (snd (read_assignments_multiline rt path (Module body)) = None
        \<longleftrightarrow> (\<forall>n e. Assign [Name n] e \<in> set body \<longrightarrow> (\<exists>v. literal_eval rt e = Inr v)))
   \<and> (snd (read_assignments_multiline rt path (Module body)) = None
        \<and> Assign [Name n] e \<in> set body \<longrightarrow>
        (\<exists>v. literal_eval rt e = Inr v)
        \<and> contains (fst (read_assignments_multiline rt path (Module body))) n)
   \<and> (Assign [Name n] e \<in> set body \<and> literal_eval rt e = Inl ex \<longrightarrow>
        fst (read_assignments_multiline rt path (Module body)) = []
        \<and> snd (read_assignments_multiline rt path (Module body)) \<noteq> None)
   \<and> (body = pre @ Assign [Name n] e # post
        \<and> snd (read_assignments_multiline rt path (Module body)) = None
        \<and> (\<forall>e'. Assign [Name n] e' \<notin> set post) \<and> literal_eval rt e = Inr v \<longrightarrow>
        map_of (fst (read_assignments_multiline rt path (Module body))) n = Some v)
   \<and> read_assignments_multiline rt path (Module [Assign [Name ''x''] (Constant (PStr ''hello''))])
        = ([(''x'', PStr ''hello'')], None)
   \<and> literal_eval rt (Dict [Some (Constant (PStr ''a''))] [Constant (PBool True)])
        = Inr (PDict [(PStr ''a'', PBool True)])
   \<and> literal_eval rt (Set [Constant (PInt 1), Constant (PStr ''a'')])
        = Inr (PSet [PInt 1, PStr ''a''])
   \<and> literal_eval rt (Tuple [Constant PNone, Constant (PBytes ''a'')])
        = Inr (PTuple [PNone, PBytes ''a''])"
proof (intro conjI impI)
  show "literal_eval rt (Constant c) = Inr c" by simp
next
  show "snd (read_assignments_multiline rt path (Module body)) = None
        \<longleftrightarrow> (\<forall>n e. Assign [Name n] e \<in> set body \<longrightarrow> (\<exists>v. literal_eval rt e = Inr v))"
    by (simp add: read_assignments_multiline_def collect_assignments_error_iff)
next
  assume a: "snd (read_assignments_multiline rt path (Module body)) = None
        \<and> Assign [Name n] e \<in> set body"
  then have all: "\<forall>n e. Assign [Name n] e \<in> set body \<longrightarrow> (\<exists>v. literal_eval rt e = Inr v)"
    by (simp add: read_assignments_multiline_def collect_assignments_error_iff)
  with a obtain v where v: "literal_eval rt e = Inr v" by blast
  then show "\<exists>v. literal_eval rt e = Inr v" by blast
  from a v have "(n, v) \<in> set (evaluated rt body)" by (intro evaluated_mem [of n e]) simp_all
  then have "n \<in> fst ` set (rev (evaluated rt body))" by force
  then have "map_of (rev (evaluated rt body)) n \<noteq> None"
    by (simp only: map_of_eq_None_iff not_not)
  moreover have "map_of (fst (read_assignments_multiline rt path (Module body)))
      = map_of (rev (evaluated rt body))"
    using a by (simp add: read_assignments_multiline_ok map_of_foldl_update)
  ultimately show "contains (fst (read_assignments_multiline rt path (Module body))) n"
    by (simp add: contains_def)
next
  assume a: "Assign [Name n] e \<in> set body \<and> literal_eval rt e = Inl ex"
  then have "\<forall>v. literal_eval rt e \<noteq> Inr v" by simp
  with a have "\<not> (\<forall>n e. Assign [Name n] e \<in> set body \<longrightarrow> (\<exists>v. literal_eval rt e = Inr v))"
    by blast
  then have err: "snd (collect_assignments rt [] body) \<noteq> None"
    by (simp only: collect_assignments_error_iff not_False_eq_True)
  then show "snd (read_assignments_multiline rt path (Module body)) \<noteq> None"
    by (simp add: read_assignments_multiline_def)
  from err show "fst (read_assignments_multiline rt path (Module body)) = []"
    by (simp add: read_assignments_multiline_def collect_assignments_error_empty)
next
  assume a: "body = pre @ Assign [Name n] e # post
        \<and> snd (read_assignments_multiline rt path (Module body)) = None
        \<and> (\<forall>e'. Assign [Name n] e' \<notin> set post) \<and> literal_eval rt e = Inr v"
  then have body: "body = pre @ Assign [Name n] e # post" by blast
  from a have "snd (read_assignments_multiline rt path (Module (pre @ Assign [Name n] e # post))) = None"
    and "\<forall>e'. Assign [Name n] e' \<notin> set post" and "literal_eval rt e = Inr v"
    unfolding body by blast+
  then show "map_of (fst (read_assignments_multiline rt path (Module body))) n = Some v"
    unfolding body by (rule read_assignments_multiline_last)
next
  show "read_assignments_multiline rt path (Module [Assign [Name ''x''] (Constant (PStr ''hello''))])
        = ([(''x'', PStr ''hello'')], None)"
    by (simp add: read_assignments_multiline_def)
qed simp_all

theorem any_literal_is_accepted_witness:
  "literal_eval sample_runtime (Constant (PBool True)) = Inr (PBool True)
   \<and> snd (read_assignments_multiline sample_runtime ''peft.txt''
          (Module [Assign [Name ''x''] (Constant (PStr ''hello'')),
                   Assign [Name ''flag''] (Constant (PBool True))])) = None
   \<and> Assign [Name ''flag''] (Constant (PBool True))
        \<in> set [Assign [Name ''x''] (Constant (PStr ''hello'')),
                Assign [Name ''flag''] (Constant (PBool True))]
   \<and> contains (fst (read_assignments_multiline sample_runtime ''peft.txt''
          (Module [Assign [Name ''x''] (Constant (PStr ''hello'')),
                   Assign [Name ''flag''] (Constant (PBool True))]))) ''flag''
   \<and> map_of (fst (read_assignments_multiline sample_runtime ''peft.txt''
          (Module [Assign [Name ''x''] (Constant (PStr ''hello'')),
                   Assign [Name ''flag''] (Constant (PBool True))]))) ''flag'' = Some (PBool True)
   \<and> Assign [Name ''y''] (Name ''x'')
        \<in> set [Assign [Name ''x''] (Constant (PStr ''hello'')), Assign [Name ''y''] (Name ''x'')]
   \<and> literal_eval sample_runtime (Name ''x'') = Inl (MalformedNode (Some (Name ''x'')))
   \<and> fst (read_assignments_multiline sample_runtime ''peft.txt''
          (Module [Assign [Name ''x''] (Constant (PStr ''hello'')),
                   Assign [Name ''y''] (Name ''x'')])) = []
   \<and> snd (read_assignments_multiline sample_runtime ''peft.txt''
          (Module [Assign [Name ''x''] (Constant (PStr ''hello'')),
                   Assign [Name ''y''] (Name ''x'')])) \<noteq> None"
  using any_literal_is_accepted [of sample_runtime "PBool True" "''peft.txt''"
      "[Assign [Name ''x''] (Constant (PStr ''hello'')),
        Assign [Name ''flag''] (Constant (PBool True))]"
      "''flag''" "Constant (PBool True)" OverflowError
      "[Assign [Name ''x''] (Constant (PStr ''hello''))]" "[]" "PBool True"]
    any_literal_is_accepted [of sample_runtime "PBool True" "''peft.txt''"
      "[Assign [Name ''x''] (Constant (PStr ''hello'')), Assign [Name ''y''] (Name ''x'')]"
      "''y''" "Name ''x''" "MalformedNode (Some (Name ''x''))"
      "[Assign [Name ''x''] (Constant (PStr ''hello''))]" "[]" PNone]
  by (simp add: read_assignments_multiline_def)

subsection \<open>The file checks always return a list of errors\<close>

text \<open>
  The subscripts \<^verbatim>\<open>vars_out[name]\<close> are only reached when every required name is
  present, so no \<^verbatim>\<open>KeyError\<close> escapes either check.
\<close>

lemma check_peft_config_vars_returns: "\<exists>errors. check_peft_config_vars vars_out = Inr errors"
  using check_peft_config_vars_missing [of vars_out] check_peft_config_vars_present [of vars_out]
  by (cases "list_all (contains vars_out) required_config") simp_all

lemma check_peft_vars_returns: "\<exists>errors. check_peft_vars rt vars_out = Inr errors"
proof (cases "list_all (contains vars_out) required_peft")
  case True
  then obtain b A B W where "map_of vars_out ''b'' = Some b" "map_of vars_out ''A'' = Some A"
    "map_of vars_out ''B'' = Some B" "map_of vars_out ''Wprime'' = Some W"
    by (auto simp: required_peft_def contains_def)
  then show ?thesis
    using check_peft_vars_present [of vars_out b A B W rt] by simp
next
  case False
  then show ?thesis
    using check_peft_vars_missing [of vars_out rt] by simp
qed

lemma check_peft_config_returns: "\<exists>errors. check_peft_config rt path src = Inr errors"
  using check_peft_config_vars_returns
  by (simp add: check_peft_config_def split: prod.split option.split)

lemma check_peft_returns: "\<exists>errors. check_peft rt path src = Inr errors"
  using check_peft_vars_returns
  by (simp add: check_peft_def split: prod.split option.split)

end
